theory Spec2Isabelle
  imports Complex_Main
begin

section \<open>The simulation core of NeonAsteroids (GameEngine)\<close>

text \<open>
  A shallow embedding of the game engine component: the entity model of \<^verbatim>\<open>types.ts\<close>,
  the spawner, the input resolver, the physics integrator, the collision engine with
  the wave controller, and the fire handler.

  JavaScript numbers are modelled as follows. Coordinates, velocities, angles and
  radii are \<^typ>\<open>real\<close> (exact arithmetic in place of IEEE doubles). The counters
  (score, lives, ammunition, wave, shots, hits, frame counters, size classes) only ever
  hold integers and are \<^typ>\<open>int\<close>. \<^verbatim>\<open>Math.random()\<close> reads the next element of an
  explicit sequence of draws carried by the world. The \<^verbatim>\<open>id\<close> strings (built from
  \<^verbatim>\<open>Date.now()\<close>) and the constant \<^verbatim>\<open>type\<close> tag of an entity are never read by the
  engine and are left out. Calls to the audio service, to the callbacks of the host and
  to \<^verbatim>\<open>setTimeout\<close> are appended to a log of events.
\<close>

subsection \<open>Entity model\<close>

datatype GameState = MENU | PLAYING | GAME_OVER | PAUSED | AI_INTERACTION

text \<open>The fields \<^verbatim>\<open>x\<close> and \<^verbatim>\<open>y\<close> of a point are called \<open>px\<close> and \<open>py\<close>, so
  that \<open>x\<close> and \<open>y\<close> stay available as variables.\<close>

record Point =
  px :: real
  py :: real

type_synonym Velocity = Point

text \<open>The optional \<^verbatim>\<open>destroyed\<close> flag is falsy when absent: absent is \<open>False\<close>.\<close>

record GameObject =
  position :: Point
  velocity :: Velocity
  rotation :: real
  radius :: real
  destroyed :: bool
  color :: "string option"

record Asteroid = GameObject +
  sizeClass :: int
  vertices :: "Point list"

datatype PowerupKind = Life | Spread

record Powerup = GameObject +
  kind :: PowerupKind
  lifeTime :: int

record Particle = GameObject +
  life :: real
  maxLife :: real

record Ship = GameObject +
  thrusting :: bool
  invulnerable :: int
  rotationSpeed :: real

text \<open>The two callbacks handed to \<^verbatim>\<open>setTimeout\<close>: the game-over callback, and the
  respawn callback \<^verbatim>\<open>resetShip(width, height)\<close>. Scheduling one is an event; the
  callbacks run outside the frame.\<close>

datatype Timer = GameOverTimer | RespawnTimer real real

datatype Event =
    PlayExplosion string
  | PlayPowerupSpawn
  | PlayPowerupCollect
  | PlayShoot
  | SetThrust bool
  | ScoreUpdate int
  | LivesUpdate int
  | AmmoUpdate int
  | SetTimeout Timer nat

text \<open>The refs of the component. \<open>rand\<close> is the sequence of values that
  \<^verbatim>\<open>Math.random()\<close> returns and \<open>drawn\<close> the number of values consumed so far.\<close>

record World =
  ship :: Ship
  asteroids :: "Asteroid list"
  bullets :: "GameObject list"
  particles :: "Particle list"
  powerups :: "Powerup list"
  score :: int
  shotsFired :: int
  shotsHit :: int
  waveCount :: int
  spreadAmmo :: int
  lives :: int
  keys :: "string \<Rightarrow> bool"
  rand :: "nat \<Rightarrow> real"
  drawn :: nat
  events :: "Event list"

definition SHIP_SIZE :: real where "SHIP_SIZE = 15"
definition ROTATION_SPEED :: real where "ROTATION_SPEED = 8 / 100"
definition THRUST :: real where "THRUST = 15 / 100"
definition FRICTION :: real where "FRICTION = 98 / 100"
definition MAX_SPEED :: real where "MAX_SPEED = 6"
definition BULLET_SPEED :: real where "BULLET_SPEED = 7"
definition ASTEROID_SPEED_BASE :: real where "ASTEROID_SPEED_BASE = 1"
definition SPREAD_AMMO_COUNT :: int where "SPREAD_AMMO_COUNT = 50"
definition POWERUP_LIFETIME :: int where "POWERUP_LIFETIME = 300"

text \<open>\<^verbatim>\<open>Math.hypot\<close> of two arguments.\<close>

definition hypot :: "real \<Rightarrow> real \<Rightarrow> real" where
  "hypot a b = sqrt (a\<^sup>2 + b\<^sup>2)"

text \<open>The distance between the centres of two entities, as every collision test
  computes it.\<close>

definition dist_between :: "Point \<Rightarrow> Point \<Rightarrow> real" where
  "dist_between p q = hypot (px p - px q) (py p - py q)"

text \<open>The \<open>k\<close>-th draw from now, and \<open>array.splice(i, 1)\<close>.\<close>

definition rnd :: "World \<Rightarrow> nat \<Rightarrow> real" where
  "rnd s k = rand s (drawn s + k)"

definition splice1 :: "nat \<Rightarrow> 'a list \<Rightarrow> 'a list" where
  "splice1 i xs = take i xs @ drop (Suc i) xs"

definition emit :: "Event \<Rightarrow> World \<Rightarrow> World" where
  "emit e s = s\<lparr>events := events s @ [e]\<rparr>"

subsection \<open>Physics integrator\<close>

text \<open>The two consecutive wrap tests on one coordinate:
  \<^verbatim>\<open>if (x < 0) x += width; if (x > width) x -= width;\<close>\<close>

definition wrap :: "real \<Rightarrow> real \<Rightarrow> real" where
  "wrap bound c = (let c1 = (if c < 0 then c + bound else c)
                   in if c1 > bound then c1 - bound else c1)"

definition moveShip :: "real \<Rightarrow> real \<Rightarrow> Ship \<Rightarrow> Ship" where
  "moveShip width height sh =
     (if destroyed sh then sh
      else sh\<lparr>position := \<lparr>px = wrap width (px (position sh) + px (velocity sh)),
                             py = wrap height (py (position sh) + py (velocity sh))\<rparr>,
              velocity := \<lparr>px = px (velocity sh) * FRICTION,
                             py = py (velocity sh) * FRICTION\<rparr>,
              invulnerable := (if invulnerable sh > 0 then invulnerable sh - 1
                               else invulnerable sh)\<rparr>)"

definition moveAsteroid :: "real \<Rightarrow> real \<Rightarrow> Asteroid \<Rightarrow> Asteroid" where
  "moveAsteroid width height a =
     a\<lparr>position := \<lparr>px = wrap width (px (position a) + px (velocity a)),
                      py = wrap height (py (position a) + py (velocity a))\<rparr>\<rparr>"

text \<open>The loops that run from the last index down to 0, update the element in place
  and remove it with \<^verbatim>\<open>splice(i, 1)\<close> when it is dead. The first argument is the
  number of indices still to visit.\<close>

fun sweep :: "('a \<Rightarrow> 'a) \<Rightarrow> ('a \<Rightarrow> bool) \<Rightarrow> nat \<Rightarrow> 'a list \<Rightarrow> 'a list" where
  "sweep f dead 0 xs = xs"
| "sweep f dead (Suc i) xs =
     (let e = f (xs ! i)
      in sweep f dead i (if dead e then splice1 i (xs[i := e]) else xs[i := e]))"

definition moveBullet :: "GameObject \<Rightarrow> GameObject" where
  "moveBullet b = b\<lparr>position := \<lparr>px = px (position b) + px (velocity b),
                                     py = py (position b) + py (velocity b)\<rparr>\<rparr>"

definition bulletOut :: "real \<Rightarrow> real \<Rightarrow> GameObject \<Rightarrow> bool" where
  "bulletOut width height b \<longleftrightarrow>
     px (position b) < 0 \<or> px (position b) > width \<or>
     py (position b) < 0 \<or> py (position b) > height"

definition agePowerup :: "Powerup \<Rightarrow> Powerup" where
  "agePowerup p = p\<lparr>lifeTime := lifeTime p - 1\<rparr>"

definition moveParticle :: "Particle \<Rightarrow> Particle" where
  "moveParticle p = p\<lparr>position := \<lparr>px = px (position p) + px (velocity p),
                                       py = py (position p) + py (velocity p)\<rparr>,
                       life := life p - 1\<rparr>"

definition updatePhysics :: "real \<Rightarrow> real \<Rightarrow> World \<Rightarrow> World" where
  "updatePhysics width height s =
     s\<lparr>ship := moveShip width height (ship s),
       bullets := sweep moveBullet (bulletOut width height) (length (bullets s)) (bullets s),
       asteroids := map (moveAsteroid width height) (asteroids s),
       powerups := sweep agePowerup (\<lambda>p. lifeTime p \<le> 0) (length (powerups s)) (powerups s),
       particles := sweep moveParticle (\<lambda>p. life p \<le> 0) (length (particles s)) (particles s)\<rparr>"

subsection \<open>Spawner\<close>

text \<open>One iteration of the loop of \<^verbatim>\<open>createParticles\<close>: the draws are, in the order
  of the object literal, the two velocity components, the radius and the life.\<close>

definition pushParticle :: "Point \<Rightarrow> string \<Rightarrow> World \<Rightarrow> World" where
  "pushParticle pos col s =
     s\<lparr>particles := particles s @
          [\<lparr>position = pos,
            velocity = \<lparr>px = (rnd s 0 - 1 / 2) * 4, py = (rnd s 1 - 1 / 2) * 4\<rparr>,
            rotation = 0,
            radius = rnd s 2 * 2 + 1,
            destroyed = False,
            color = Some col,
            life = 30 + rnd s 3 * 20,
            maxLife = 50\<rparr>],
       drawn := drawn s + 4\<rparr>"

fun createParticles :: "Point \<Rightarrow> nat \<Rightarrow> string \<Rightarrow> World \<Rightarrow> World" where
  "createParticles pos 0 col s = s"
| "createParticles pos (Suc n) col s = createParticles pos n col (pushParticle pos col s)"

text \<open>The rejection loop of \<^verbatim>\<open>spawnAsteroids\<close>:
  \<^verbatim>\<open>do { x = random * width; y = random * height } while (hypot(...) < 150)\<close>.
  It reads the draws from index \<open>i\<close> on and returns the position with the index of
  the next unread draw. It need not terminate, so it is a partial function and
  \<open>None\<close> stands for a loop that never leaves the safe zone.\<close>

partial_function (option) pickPosition ::
  "(nat \<Rightarrow> real) \<Rightarrow> real \<Rightarrow> real \<Rightarrow> nat \<Rightarrow> (real \<times> real \<times> nat) option" where
  "pickPosition rn width height i =
     (if hypot (rn i * width - width / 2) (rn (Suc i) * height - height / 2) < 150
      then pickPosition rn width height (i + 2)
      else Some (rn i * width, rn (Suc i) * height, i + 2))"

definition chooseSizeClass :: "int \<Rightarrow> real \<Rightarrow> int" where
  "chooseSizeClass currentScore r =
     (if currentScore > 5000 \<and> r < 1 / 10 then 4
      else if r < 25 / 100 then 3
      else if r < 6 / 10 then 2
      else 1)"

text \<open>The body of the loop of \<^verbatim>\<open>spawnAsteroids\<close>, reading the draws from index
  \<open>i\<close> on: size class, position, number of vertices, one draw for each vertex, the
  two velocity components and the rotation.\<close>

definition genAsteroid ::
  "int \<Rightarrow> real \<Rightarrow> real \<Rightarrow> (nat \<Rightarrow> real) \<Rightarrow> nat \<Rightarrow> (Asteroid \<times> nat) option" where
  "genAsteroid currentScore width height rn i =
     (let sc = chooseSizeClass currentScore (rn i);
          rad = real_of_int sc * 18
      in case pickPosition rn width height (Suc i) of
           None \<Rightarrow> None
         | Some (x, y, j) \<Rightarrow>
             (let numVerts = 8 + \<lfloor>rn j * 5\<rfloor>;
                  n = nat numVerts;
                  verts = map (\<lambda>v. let angle = (real v / real_of_int numVerts) * pi * 2;
                                       r = rad * (8 / 10 + rn (Suc j + v) * (4 / 10))
                                   in \<lparr>px = cos angle * r, py = sin angle * r\<rparr>) [0..<n];
                  k = Suc j + n
              in Some (\<lparr>position = \<lparr>px = x, py = y\<rparr>,
                        velocity = \<lparr>px = (rn k - 1 / 2) * ASTEROID_SPEED_BASE * (5 / real_of_int sc),
                                     py = (rn (k + 1) - 1 / 2) * ASTEROID_SPEED_BASE * (5 / real_of_int sc)\<rparr>,
                        rotation = rn (k + 2) * pi * 2,
                        radius = rad,
                        destroyed = False,
                        color = None,
                        sizeClass = sc,
                        vertices = verts\<rparr>, k + 3)))"

fun spawnBatch ::
  "nat \<Rightarrow> int \<Rightarrow> real \<Rightarrow> real \<Rightarrow> (nat \<Rightarrow> real) \<Rightarrow> nat \<Rightarrow> (Asteroid list \<times> nat) option" where
  "spawnBatch 0 currentScore width height rn i = Some ([], i)"
| "spawnBatch (Suc n) currentScore width height rn i =
     (case genAsteroid currentScore width height rn i of
        None \<Rightarrow> None
      | Some (a, j) \<Rightarrow>
          (case spawnBatch n currentScore width height rn j of
             None \<Rightarrow> None
           | Some (as, k) \<Rightarrow> Some (a # as, k)))"

text \<open>\<^verbatim>\<open>spawnAsteroids\<close>: the loop \<^verbatim>\<open>for (i = 0; i < count; i++)\<close> runs
  \<open>nat count\<close> times and the new asteroids are concatenated to the collection.\<close>

definition spawnAsteroids :: "int \<Rightarrow> real \<Rightarrow> real \<Rightarrow> World \<Rightarrow> World option" where
  "spawnAsteroids count width height s =
     (case spawnBatch (nat count) (score s) width height (rand s) (drawn s) of
        None \<Rightarrow> None
      | Some (as, k) \<Rightarrow> Some (s\<lparr>asteroids := asteroids s @ as, drawn := k\<rparr>))"

definition spawnPowerup :: "PowerupKind \<Rightarrow> real \<Rightarrow> real \<Rightarrow> World \<Rightarrow> World" where
  "spawnPowerup knd width height s =
     emit PlayPowerupSpawn
       (s\<lparr>powerups := powerups s @
            [\<lparr>position = \<lparr>px = rnd s 0 * (width - 40) + 20, py = rnd s 1 * (height - 40) + 20\<rparr>,
              velocity = \<lparr>px = 0, py = 0\<rparr>,
              rotation = 0,
              radius = 15,
              destroyed = False,
              color = None,
              kind = knd,
              lifeTime = POWERUP_LIFETIME\<rparr>],
          drawn := drawn s + 2\<rparr>)"

definition resetShip :: "real \<Rightarrow> real \<Rightarrow> World \<Rightarrow> World" where
  "resetShip width height s =
     s\<lparr>ship := (ship s)\<lparr>position := \<lparr>px = width / 2, py = height / 2\<rparr>,
                        velocity := \<lparr>px = 0, py = 0\<rparr>,
                        rotation := - pi / 2,
                        invulnerable := 180,
                        destroyed := False\<rparr>\<rparr>"

subsection \<open>Input resolver\<close>

definition handleInput :: "World \<Rightarrow> World" where
  "handleInput s =
     (if destroyed (ship s) then emit (SetThrust False) s
      else
        let sh0 = ship s;
            sh1 = (if keys s ''ArrowLeft'' then sh0\<lparr>rotation := rotation sh0 - ROTATION_SPEED\<rparr> else sh0);
            sh2 = (if keys s ''ArrowRight'' then sh1\<lparr>rotation := rotation sh1 + ROTATION_SPEED\<rparr> else sh1);
            sh3 = (if keys s ''ArrowUp''
                   then sh2\<lparr>thrusting := True,
                            velocity := \<lparr>px = px (velocity sh2) + cos (rotation sh2) * THRUST,
                                          py = py (velocity sh2) + sin (rotation sh2) * THRUST\<rparr>\<rparr>
                   else sh2\<lparr>thrusting := False\<rparr>);
            speed = hypot (px (velocity sh3)) (py (velocity sh3));
            sh4 = (if speed > MAX_SPEED
                   then sh3\<lparr>velocity := \<lparr>px = (px (velocity sh3) / speed) * MAX_SPEED,
                                          py = (py (velocity sh3) / speed) * MAX_SPEED\<rparr>\<rparr>
                   else sh3)
        in (emit (SetThrust (thrusting sh3)) s)\<lparr>ship := sh4\<rparr>)"

subsection \<open>Collision and resolution engine\<close>

definition points_for :: "int \<Rightarrow> int" where
  "points_for k = (if k = 4 then 15 else if k = 3 then 20 else if k = 2 then 50 else 100)"

definition explosion_for :: "int \<Rightarrow> string" where
  "explosion_for k = (if k = 4 then ''massive'' else if k = 3 then ''large'' else ''small'')"

text \<open>One iteration of the loop \<^verbatim>\<open>for (k = 0; k < 2; k++)\<close> that splits asteroid
  \<open>a\<close>: the draws are the number of vertices, two for each vertex, the two velocity
  components and the rotation.\<close>

definition pushFragment :: "Asteroid \<Rightarrow> World \<Rightarrow> World" where
  "pushFragment a s =
     (let newSize = sizeClass a - 1;
          numVerts = 6 + \<lfloor>rnd s 0 * 4\<rfloor>;
          n = nat numVerts;
          r = real_of_int newSize * 18;
          verts = map (\<lambda>v. let angle = (real v / real_of_int numVerts) * pi * 2
                           in \<lparr>px = cos angle * r * (8 / 10 + rnd s (1 + 2 * v) * (4 / 10)),
                               py = sin angle * r * (8 / 10 + rnd s (2 + 2 * v) * (4 / 10))\<rparr>) [0..<n];
          k = 1 + 2 * n
      in s\<lparr>asteroids := asteroids s @
             [\<lparr>position = position a,
               velocity = \<lparr>px = (rnd s k - 1 / 2) * (25 / 10) * (4 / real_of_int newSize),
                            py = (rnd s (k + 1) - 1 / 2) * (25 / 10) * (4 / real_of_int newSize)\<rparr>,
               rotation = rnd s (k + 2) * 6,
               radius = r,
               destroyed = False,
               color = None,
               sizeClass = newSize,
               vertices = verts\<rparr>],
           drawn := drawn s + (k + 3)\<rparr>)"

text \<open>The body of \<^verbatim>\<open>if (dist < a.radius)\<close> for the asteroid at index \<open>j\<close>.\<close>

definition resolveHit :: "nat \<Rightarrow> World \<Rightarrow> World" where
  "resolveHit j s =
     (let a = asteroids s ! j;
          s1 = emit (PlayExplosion (explosion_for (sizeClass a))) s;
          s2 = createParticles (position a) (nat (5 + sizeClass a * 2)) ''#00f3ff'' s1;
          s3 = s2\<lparr>shotsHit := shotsHit s2 + 1\<rparr>;
          s4 = s3\<lparr>score := score s3 + points_for (sizeClass a)\<rparr>;
          s5 = emit (ScoreUpdate (score s4)) s4;
          s6 = (if sizeClass a > 1 then pushFragment a (pushFragment a s5) else s5)
      in s6\<lparr>asteroids := splice1 j (asteroids s6)\<rparr>)"

text \<open>The inner loop over the asteroids, from the last index down; the first argument
  counts the indices still to visit. It stops at the first hit.\<close>

fun scanAsteroids :: "GameObject \<Rightarrow> nat \<Rightarrow> World \<Rightarrow> bool \<times> World" where
  "scanAsteroids b 0 s = (False, s)"
| "scanAsteroids b (Suc j) s =
     (if dist_between (position b) (position (asteroids s ! j)) < radius (asteroids s ! j)
      then (True, resolveHit j s)
      else scanAsteroids b j s)"

fun bulletLoop :: "nat \<Rightarrow> World \<Rightarrow> World" where
  "bulletLoop 0 s = s"
| "bulletLoop (Suc i) s =
     (case scanAsteroids (bullets s ! i) (length (asteroids s)) s of
        (hit, s') \<Rightarrow> bulletLoop i (if hit then s'\<lparr>bullets := splice1 i (bullets s')\<rparr> else s'))"

definition bulletsVsAsteroids :: "World \<Rightarrow> World" where
  "bulletsVsAsteroids s = bulletLoop (length (bullets s)) s"

text \<open>The body of the ship-asteroid test.\<close>

definition killShip :: "real \<Rightarrow> real \<Rightarrow> World \<Rightarrow> World" where
  "killShip width height s =
     (let s1 = s\<lparr>ship := (ship s)\<lparr>destroyed := True\<rparr>\<rparr>;
          s2 = emit (PlayExplosion ''large'') s1;
          s3 = createParticles (position (ship s2)) 20 ''#ff00ff'' s2;
          s4 = s3\<lparr>lives := lives s3 - 1\<rparr>;
          s5 = emit (LivesUpdate (lives s4)) s4;
          s6 = s5\<lparr>spreadAmmo := 0\<rparr>;
          s7 = emit (AmmoUpdate 0) s6
      in if lives s7 \<le> 0 then emit (SetTimeout GameOverTimer 1000) s7
         else emit (SetTimeout (RespawnTimer width height) 2000) s7)"

text \<open>\<^verbatim>\<open>for (const a of asteroidsRef.current)\<close> with its \<^verbatim>\<open>break\<close>.\<close>

fun shipScan :: "real \<Rightarrow> real \<Rightarrow> Asteroid list \<Rightarrow> World \<Rightarrow> World" where
  "shipScan width height [] s = s"
| "shipScan width height (a # as) s =
     (if dist_between (position (ship s)) (position a) < radius a + radius (ship s) - 5
      then killShip width height s
      else shipScan width height as s)"

definition shipVsAsteroids :: "real \<Rightarrow> real \<Rightarrow> World \<Rightarrow> World" where
  "shipVsAsteroids width height s =
     (if \<not> destroyed (ship s) \<and> invulnerable (ship s) \<le> 0
      then shipScan width height (asteroids s) s
      else s)"

text \<open>The body of the ship-powerup test for the powerup at index \<open>i\<close>.\<close>

definition collectPowerup :: "nat \<Rightarrow> World \<Rightarrow> World" where
  "collectPowerup i s =
     (let p = powerups s ! i;
          s1 = emit PlayPowerupCollect s;
          s2 = (case kind p of
                  Life \<Rightarrow> (if lives s1 < 5
                            then (let s' = s1\<lparr>lives := lives s1 + 1\<rparr> in emit (LivesUpdate (lives s')) s')
                            else s1)
                | Spread \<Rightarrow> emit (AmmoUpdate SPREAD_AMMO_COUNT) (s1\<lparr>spreadAmmo := SPREAD_AMMO_COUNT\<rparr>));
          s3 = s2\<lparr>powerups := splice1 i (powerups s2)\<rparr>
      in createParticles (position p) 10 (case kind p of Life \<Rightarrow> ''#00ff00'' | Spread \<Rightarrow> ''#ffaa00'') s3)"

fun powerupLoop :: "nat \<Rightarrow> World \<Rightarrow> World" where
  "powerupLoop 0 s = s"
| "powerupLoop (Suc i) s =
     powerupLoop i
       (if dist_between (position (ship s)) (position (powerups s ! i))
             < radius (powerups s ! i) + radius (ship s)
        then collectPowerup i s
        else s)"

definition shipVsPowerups :: "World \<Rightarrow> World" where
  "shipVsPowerups s =
     (if \<not> destroyed (ship s) then powerupLoop (length (powerups s)) s else s)"

text \<open>Wave completion. \<^verbatim>\<open>Math.floor(score / 800)\<close> on an integer score is \<open>div\<close>;
  the sign of JavaScript's \<^verbatim>\<open>%\<close> does not matter in a comparison with 0.\<close>

definition waveCheck :: "real \<Rightarrow> real \<Rightarrow> GameState \<Rightarrow> World \<Rightarrow> World option" where
  "waveCheck width height gameState s =
     (if asteroids s = [] \<and> PLAYING = gameState
      then let s1 = s\<lparr>waveCount := waveCount s + 1\<rparr>;
               difficultyMod = score s1 div 800
           in case spawnAsteroids (5 + difficultyMod) width height s1 of
                None \<Rightarrow> None
              | Some s2 \<Rightarrow>
                  Some (if waveCount s2 > 0 \<and> waveCount s2 mod 5 = 0
                        then spawnPowerup Life width height s2
                        else s2)
      else Some s)"

definition checkCollisions :: "real \<Rightarrow> real \<Rightarrow> GameState \<Rightarrow> World \<Rightarrow> World option" where
  "checkCollisions width height gameState s =
     waveCheck width height gameState
       (shipVsPowerups (shipVsAsteroids width height (bulletsVsAsteroids s)))"

subsection \<open>Frame loop and fire handler\<close>

text \<open>One animation frame on a canvas of the given size (rendering does not change
  the world).\<close>

definition loop :: "real \<Rightarrow> real \<Rightarrow> GameState \<Rightarrow> World \<Rightarrow> World option" where
  "loop width height gameState s =
     (if gameState \<noteq> PLAYING then Some s
      else checkCollisions width height gameState (updatePhysics width height (handleInput s)))"

definition fireBullet :: "bool \<Rightarrow> real \<Rightarrow> World \<Rightarrow> World" where
  "fireBullet hasSpread angleOffset s =
     (let angle = rotation (ship s) + angleOffset
      in s\<lparr>bullets := bullets s @
             [\<lparr>position = position (ship s),
               velocity = \<lparr>px = cos angle * BULLET_SPEED, py = sin angle * BULLET_SPEED\<rparr>,
               rotation = 0,
               radius = 2,
               destroyed = False,
               color = Some (if hasSpread then ''#ff9900'' else ''#ff00aa'')\<rparr>]\<rparr>)"

definition fireAngles :: "bool \<Rightarrow> real list" where
  "fireAngles hasSpread =
     (if hasSpread then [0, - 25 * (pi / 180), 25 * (pi / 180)] else [0])"

definition handleKeyDown :: "string \<Rightarrow> GameState \<Rightarrow> World \<Rightarrow> World" where
  "handleKeyDown code gameState s =
     (let s0 = s\<lparr>keys := (keys s)(code := True)\<rparr>
      in if code = ''Space'' \<and> gameState = PLAYING \<and> \<not> destroyed (ship s0)
         then let hasSpread = spreadAmmo s0 > 0;
                  s1 = foldl (\<lambda>w angleOffset. fireBullet hasSpread angleOffset w) s0 (fireAngles hasSpread);
                  s2 = (if hasSpread
                        then (let s' = s1\<lparr>spreadAmmo := spreadAmmo s1 - 1\<rparr>
                              in emit (AmmoUpdate (spreadAmmo s')) s')
                        else s1);
                  s3 = s2\<lparr>shotsFired := shotsFired s2 + 1\<rparr>
              in emit PlayShoot s3
         else s0)"

definition handleKeyUp :: "string \<Rightarrow> World \<Rightarrow> World" where
  "handleKeyUp code s = s\<lparr>keys := (keys s)(code := False)\<rparr>"

subsection \<open>Sample worlds\<close>

text \<open>A ship at rest in the middle of an 800 by 600 canvas, a world with nothing
  else in it whose draws are all 0, and a motionless asteroid of a given size class.\<close>

definition restShip :: Ship where
  "restShip = \<lparr>position = \<lparr>px = 400, py = 300\<rparr>, velocity = \<lparr>px = 0, py = 0\<rparr>,
                rotation = 0, radius = SHIP_SIZE, destroyed = False, color = None,
                thrusting = False, invulnerable = 0, rotationSpeed = 0\<rparr>"

definition quietWorld :: World where
  "quietWorld = \<lparr>ship = restShip, asteroids = [], bullets = [], particles = [],
                  powerups = [], score = 0, shotsFired = 0, shotsHit = 0, waveCount = 0,
                  spreadAmmo = 0, lives = 3, keys = (\<lambda>_. False), rand = (\<lambda>_. 0),
                  drawn = 0, events = []\<rparr>"

definition rock :: "int \<Rightarrow> real \<Rightarrow> real \<Rightarrow> Asteroid" where
  "rock k x y = \<lparr>position = \<lparr>px = x, py = y\<rparr>, velocity = \<lparr>px = 0, py = 0\<rparr>,
                 rotation = 0, radius = real_of_int k * 18, destroyed = False, color = None,
                 sizeClass = k, vertices = []\<rparr>"

text \<open>A wreck: the ship is destroyed while it still has a velocity and seven frames
  of invulnerability left.\<close>

definition wreckWorld :: World where
  "wreckWorld = quietWorld\<lparr>ship := restShip\<lparr>destroyed := True,
                                                velocity := \<lparr>px = 3, py = 4\<rparr>,
                                                invulnerable := 7\<rparr>\<rparr>"

text \<open>A freshly respawned ship, invulnerable, with a large asteroid on top of it.\<close>

definition shieldedWorld :: World where
  "shieldedWorld = quietWorld\<lparr>ship := restShip\<lparr>invulnerable := 180\<rparr>,
                              asteroids := [rock 3 400 300]\<rparr>"

text \<open>The closed box \<open>[0, width] \<times> [0, height]\<close>, the half-open box
  \<open>[0, width) \<times> [0, height)\<close>, and a velocity whose step in one frame is no longer
  than the canvas.\<close>

definition inBox :: "real \<Rightarrow> real \<Rightarrow> Point \<Rightarrow> bool" where
  "inBox width height p \<longleftrightarrow> 0 \<le> px p \<and> px p \<le> width \<and> 0 \<le> py p \<and> py p \<le> height"

definition inHalfOpenBox :: "real \<Rightarrow> real \<Rightarrow> Point \<Rightarrow> bool" where
  "inHalfOpenBox width height p \<longleftrightarrow> 0 \<le> px p \<and> px p < width \<and> 0 \<le> py p \<and> py p < height"

definition stepFits :: "real \<Rightarrow> real \<Rightarrow> Velocity \<Rightarrow> bool" where
  "stepFits width height v \<longleftrightarrow> \<bar>px v\<bar> \<le> width \<and> \<bar>py v\<bar> \<le> height"

text \<open>The ship one step from the right edge, and an asteroid one step from the bottom
  edge that crosses the left edge.\<close>

definition edgeWorld :: World where
  "edgeWorld = quietWorld\<lparr>ship := restShip\<lparr>position := \<lparr>px = 799, py = 300\<rparr>,
                                              velocity := \<lparr>px = 1, py = 0\<rparr>\<rparr>,
                           asteroids := [(rock 1 2 599)\<lparr>velocity := \<lparr>px = - 5 / 2, py = 1\<rparr>\<rparr>]\<rparr>"

text \<open>The bullet that the ship fires at an angle, and the two tests against the ship
  as the collision engine writes them.\<close>
definition shotFrom :: "Ship \<Rightarrow> string \<Rightarrow> real \<Rightarrow> GameObject" where
  "shotFrom sh c angle =
     \<lparr>position = position sh,
      velocity = \<lparr>px = cos angle * BULLET_SPEED, py = sin angle * BULLET_SPEED\<rparr>,
      rotation = 0, radius = 2, destroyed = False, color = Some c\<rparr>"

definition overlapsShip :: "Ship \<Rightarrow> Asteroid \<Rightarrow> bool" where
  "overlapsShip sh a \<longleftrightarrow> dist_between (position sh) (position a) < radius a + radius sh - 5"

definition touchesShip :: "Ship \<Rightarrow> Powerup \<Rightarrow> bool" where
  "touchesShip sh p \<longleftrightarrow> dist_between (position sh) (position p) < radius p + radius sh"

text \<open>A ship with spread ammunition between two overlapping asteroids, and a ship with
  ten spread shots in an empty world.\<close>

definition crowdedWorld :: World where
  "crowdedWorld = quietWorld\<lparr>asteroids := [rock 1 700 500, rock 2 410 300, rock 4 400 310],
                             spreadAmmo := 7\<rparr>"

definition armedWorld :: World where
  "armedWorld = quietWorld\<lparr>spreadAmmo := 10\<rparr>"

text \<open>Three powerups, two of them within reach of the ship, which has five lives and
  three spread shots.\<close>

definition pickupWorld :: World where
  "pickupWorld = quietWorld\<lparr>powerups :=
      [\<lparr>position = \<lparr>px = 100, py = 100\<rparr>, velocity = \<lparr>px = 0, py = 0\<rparr>, rotation = 0,
        radius = 15, destroyed = False, color = None, kind = Spread, lifeTime = 200\<rparr>,
       \<lparr>position = \<lparr>px = 410, py = 310\<rparr>, velocity = \<lparr>px = 0, py = 0\<rparr>, rotation = 0,
        radius = 15, destroyed = False, color = None, kind = Life, lifeTime = 120\<rparr>,
       \<lparr>position = \<lparr>px = 395, py = 290\<rparr>, velocity = \<lparr>px = 0, py = 0\<rparr>, rotation = 0,
        radius = 15, destroyed = False, color = None, kind = Spread, lifeTime = 30\<rparr>],
     lives := 5, spreadAmmo := 3\<rparr>"

text \<open>The bullet-asteroid test as the collision engine writes it.\<close>

definition hitsAsteroid :: "GameObject \<Rightarrow> Asteroid \<Rightarrow> bool" where
  "hitsAsteroid b a \<longleftrightarrow> dist_between (position b) (position a) < radius a"

text \<open>A bullet of radius 2 whose centre is 19 away from the centre of an asteroid of
  radius 18.\<close>

definition grazeBullet :: GameObject where
  "grazeBullet = \<lparr>position = \<lparr>px = 119, py = 100\<rparr>, velocity = \<lparr>px = 7, py = 0\<rparr>,
                   rotation = 0, radius = 2, destroyed = False, color = Some ''#ff00aa''\<rparr>"

definition grazeWorld :: World where
  "grazeWorld = quietWorld\<lparr>asteroids := [rock 1 100 100], bullets := [grazeBullet]\<rparr>"

text \<open>A bullet inside a large asteroid, with a small asteroid far away.\<close>

definition strikeBullet :: GameObject where
  "strikeBullet = \<lparr>position = \<lparr>px = 210, py = 190\<rparr>, velocity = \<lparr>px = 7, py = 0\<rparr>,
                    rotation = 0, radius = 2, destroyed = False, color = Some ''#ff00aa''\<rparr>"

definition strikeWorld :: World where
  "strikeWorld = quietWorld\<lparr>asteroids := [rock 1 700 500, rock 3 200 200],
                            bullets := [strikeBullet], score := 130\<rparr>"

text \<open>What a fragment inherits from the asteroid it comes from.\<close>

definition fragmentOf :: "Asteroid \<Rightarrow> Asteroid \<Rightarrow> bool" where
  "fragmentOf a c \<longleftrightarrow>
     sizeClass c = sizeClass a - 1 \<and> position c = position a \<and>
     radius c = real_of_int (sizeClass a - 1) * 18"

text \<open>The draws let the rejection loop of the spawner leave the safe zone: from every
  index on, some later pair of draws gives a position at least 150 away from the centre.\<close>

definition escapes :: "(nat \<Rightarrow> real) \<Rightarrow> real \<Rightarrow> real \<Rightarrow> bool" where
  "escapes rn width height \<longleftrightarrow>
     (\<forall>i. \<exists>k. \<not> hypot (rn (i + 2 * k) * width - width / 2)
                       (rn (Suc (i + 2 * k)) * height - height / 2) < 150)"

text \<open>The fourth wave has just been cleared, with a score of 1700.\<close>

definition lateWorld :: World where
  "lateWorld = quietWorld\<lparr>waveCount := 4, score := 1700\<rparr>"

text \<open>A ship that is still invulnerable, with fifty spread shots, under a large asteroid;
  nothing has been fired or hit yet.\<close>

definition volleyWorld :: World where
  "volleyWorld = quietWorld\<lparr>ship := restShip\<lparr>invulnerable := 120\<rparr>,
                            asteroids := [rock 1 700 500, rock 3 400 300],
                            spreadAmmo := 50\<rparr>"

section \<open>Properties\<close>

subsection \<open>Auxiliary facts\<close>

lemma hypot_less_iff: "hypot a b < r \<longleftrightarrow> 0 < r \<and> a\<^sup>2 + b\<^sup>2 < r\<^sup>2"
proof (cases "0 < r")
  case True
  have "sqrt (a\<^sup>2 + b\<^sup>2) < r \<longleftrightarrow> sqrt (a\<^sup>2 + b\<^sup>2) < sqrt (r\<^sup>2)"
    using True by simp
  also have "\<dots> \<longleftrightarrow> a\<^sup>2 + b\<^sup>2 < r\<^sup>2"
    by (rule real_sqrt_less_iff)
  finally show ?thesis using True by (simp add: hypot_def)
next
  case False
  have "0 \<le> hypot a b" by (simp add: hypot_def)
  with False show ?thesis by linarith
qed

lemma createParticles_frame [simp]:
  "ship (createParticles pos n col s) = ship s"
  "asteroids (createParticles pos n col s) = asteroids s"
  "bullets (createParticles pos n col s) = bullets s"
  "powerups (createParticles pos n col s) = powerups s"
  "score (createParticles pos n col s) = score s"
  "shotsFired (createParticles pos n col s) = shotsFired s"
  "shotsHit (createParticles pos n col s) = shotsHit s"
  "waveCount (createParticles pos n col s) = waveCount s"
  "spreadAmmo (createParticles pos n col s) = spreadAmmo s"
  "lives (createParticles pos n col s) = lives s"
  "keys (createParticles pos n col s) = keys s"
  "rand (createParticles pos n col s) = rand s"
  "events (createParticles pos n col s) = events s"
  by (induction n arbitrary: s; simp add: pushParticle_def)+

lemma emit_frame [simp]:
  "ship (emit e s) = ship s"
  "asteroids (emit e s) = asteroids s"
  "bullets (emit e s) = bullets s"
  "particles (emit e s) = particles s"
  "powerups (emit e s) = powerups s"
  "score (emit e s) = score s"
  "shotsFired (emit e s) = shotsFired s"
  "shotsHit (emit e s) = shotsHit s"
  "waveCount (emit e s) = waveCount s"
  "spreadAmmo (emit e s) = spreadAmmo s"
  "lives (emit e s) = lives s"
  "keys (emit e s) = keys s"
  "rand (emit e s) = rand s"
  "drawn (emit e s) = drawn s"
  "events (emit e s) = events s @ [e]"
  by (simp_all add: emit_def)

lemma splice1_length [simp]: "i < length xs \<Longrightarrow> length (splice1 i xs) = length xs - 1"
  by (simp add: splice1_def)

lemma splice1_take [simp]: "n \<le> i \<Longrightarrow> take n (splice1 i xs) = take n xs"
  by (cases "i \<le> length xs") (simp_all add: splice1_def)

lemma splice1_nth_below [simp]: "k < i \<Longrightarrow> i \<le> length xs \<Longrightarrow> splice1 i xs ! k = xs ! k"
  by (simp add: splice1_def nth_append)

lemma splice1_drop [simp]: "i < length xs \<Longrightarrow> drop i (splice1 i xs) = drop (Suc i) xs"
  by (simp add: splice1_def)

lemma splice1_append [simp]: "i < length xs \<Longrightarrow> splice1 i (xs @ ys) = splice1 i xs @ ys"
  by (simp add: splice1_def)

lemma sweep_eq:
  "n \<le> length xs \<Longrightarrow>
   sweep f dead n xs = filter (\<lambda>e. \<not> dead e) (map f (take n xs)) @ drop n xs"
proof (induction n arbitrary: xs)
  case 0
  then show ?case by simp
next
  case (Suc n)
  then have n: "n < length xs" by simp
  have tk: "take (Suc n) xs = take n xs @ [xs ! n]"
    using n by (simp add: take_Suc_conv_app_nth)
  show ?case
  proof (cases "dead (f (xs ! n))")
    case True
    have "sweep f dead (Suc n) xs = sweep f dead n (splice1 n (xs[n := f (xs ! n)]))"
      using True by (simp add: Let_def)
    also have "\<dots> = filter (\<lambda>e. \<not> dead e) (map f (take n (splice1 n (xs[n := f (xs ! n)]))))
                     @ drop n (splice1 n (xs[n := f (xs ! n)]))"
      using n by (intro Suc.IH) simp
    finally show ?thesis using True n by (simp add: tk)
  next
    case False
    have "sweep f dead (Suc n) xs = sweep f dead n (xs[n := f (xs ! n)])"
      using False by (simp add: Let_def)
    also have "\<dots> = filter (\<lambda>e. \<not> dead e) (map f (take n (xs[n := f (xs ! n)])))
                     @ drop n (xs[n := f (xs ! n)])"
      using n by (intro Suc.IH) simp
    also have "drop n (xs[n := f (xs ! n)]) = f (xs ! n) # drop (Suc n) xs"
      using n by (simp add: drop_update_swap Cons_nth_drop_Suc[symmetric] upd_conv_take_nth_drop)
    finally show ?thesis using False by (simp add: tk)
  qed
qed

subsection \<open>Physics integrator\<close>

text \<open>Claim C9. While the ship's \<open>destroyed\<close> flag is set, the physics step leaves
  the whole ship record as it was: position, velocity, rotation and the invulnerability
  counter (which therefore does not count down) are the same before and after.\<close>

theorem destroyed_ship_frozen:
  "destroyed (ship s) \<Longrightarrow> ship (updatePhysics width height s) = ship s"
  by (simp add: updatePhysics_def moveShip_def)

theorem destroyed_ship_frozen_witness:
  "destroyed (ship wreckWorld) \<and>
   velocity (ship (updatePhysics 800 600 wreckWorld)) = \<lparr>px = 3, py = 4\<rparr> \<and>
   position (ship (updatePhysics 800 600 wreckWorld)) = \<lparr>px = 400, py = 300\<rparr> \<and>
   invulnerable (ship (updatePhysics 800 600 wreckWorld)) = 7"
proof -
  have d: "destroyed (ship wreckWorld)"
    by (simp add: wreckWorld_def)
  show ?thesis
    using d destroyed_ship_frozen [OF d, of 800 600]
    by (simp add: wreckWorld_def restShip_def)
qed

subsection \<open>Wrapping\<close>

lemma wrap_closed:
  assumes "0 \<le> c" "c \<le> bound" "\<bar>v\<bar> \<le> bound"
  shows "0 \<le> wrap bound (c + v) \<and> wrap bound (c + v) \<le> bound"
  using assms by (auto simp: wrap_def Let_def)

lemma moveShip_inBox:
  assumes "inBox width height (position sh)" "stepFits width height (velocity sh)"
  shows "inBox width height (position (moveShip width height sh))"
  using assms wrap_closed[of "px (position sh)" width "px (velocity sh)"]
    wrap_closed[of "py (position sh)" height "py (velocity sh)"]
  by (simp add: moveShip_def inBox_def stepFits_def)

lemma moveAsteroid_inBox:
  assumes "inBox width height (position a)" "stepFits width height (velocity a)"
  shows "inBox width height (position (moveAsteroid width height a))"
  using assms wrap_closed[of "px (position a)" width "px (velocity a)"]
    wrap_closed[of "py (position a)" height "py (velocity a)"]
  by (simp add: moveAsteroid_def inBox_def stepFits_def)

text \<open>Claim C2, as stated, fails: the wrap test is \<^verbatim>\<open>x > width\<close>, so a coordinate
  that lands exactly on \<open>width\<close> stays there. A ship at \<open>x = 799\<close> moving right by 1 on
  a canvas 800 wide ends the physics step at \<open>x = 800\<close>, outside the half-open box.\<close>

theorem wrap_half_open_counterexample:
  "\<not> inHalfOpenBox 800 600 (position (ship (updatePhysics 800 600 edgeWorld)))"
  by (simp add: inHalfOpenBox_def updatePhysics_def moveShip_def wrap_def edgeWorld_def
      quietWorld_def restShip_def)

text \<open>Claim C2, amended. If before the physics step the ship and every asteroid lie in
  the closed box \<open>[0, width] \<times> [0, height]\<close> and move by at most the width
  horizontally and the height vertically in one frame, then after the step the ship and
  every asteroid lie in the closed box \<open>[0, width] \<times> [0, height]\<close> again.\<close>

theorem wrapped_positions_in_closed_box:
  assumes "inBox width height (position (ship s))"
    and "stepFits width height (velocity (ship s))"
    and "\<forall>a \<in> set (asteroids s). inBox width height (position a) \<and> stepFits width height (velocity a)"
  shows "inBox width height (position (ship (updatePhysics width height s))) \<and>
         (\<forall>a \<in> set (asteroids (updatePhysics width height s)). inBox width height (position a))"
  using assms by (auto simp: updatePhysics_def moveShip_inBox moveAsteroid_inBox)

theorem wrapped_positions_in_closed_box_witness:
  "inBox 800 600 (position (ship edgeWorld)) \<and>
   stepFits 800 600 (velocity (ship edgeWorld)) \<and>
   position (ship (updatePhysics 800 600 edgeWorld)) = \<lparr>px = 800, py = 300\<rparr> \<and>
   map position (asteroids (updatePhysics 800 600 edgeWorld)) = [\<lparr>px = 1599 / 2, py = 600\<rparr>] \<and>
   inBox 800 600 (position (ship (updatePhysics 800 600 edgeWorld))) \<and>
   list_all (inBox 800 600) (map position (asteroids (updatePhysics 800 600 edgeWorld)))"
proof -
  have h1: "inBox 800 600 (position (ship edgeWorld))"
    by (simp add: inBox_def edgeWorld_def quietWorld_def restShip_def)
  have h2: "stepFits 800 600 (velocity (ship edgeWorld))"
    by (simp add: stepFits_def edgeWorld_def quietWorld_def restShip_def)
  have h3: "\<forall>a \<in> set (asteroids edgeWorld). inBox 800 600 (position a) \<and> stepFits 800 600 (velocity a)"
    by (simp add: inBox_def stepFits_def edgeWorld_def quietWorld_def rock_def)
  have e: "position (ship (updatePhysics 800 600 edgeWorld)) = \<lparr>px = 800, py = 300\<rparr>"
    by (simp add: updatePhysics_def moveShip_def wrap_def edgeWorld_def quietWorld_def restShip_def)
  have f: "map position (asteroids (updatePhysics 800 600 edgeWorld)) = [\<lparr>px = 1599 / 2, py = 600\<rparr>]"
    by (simp add: updatePhysics_def moveAsteroid_def wrap_def edgeWorld_def quietWorld_def rock_def)
  note box = wrapped_positions_in_closed_box [OF h1 h2 h3]
  from box have "\<forall>p \<in> set (map position (asteroids (updatePhysics 800 600 edgeWorld))).
                  inBox 800 600 p"
    by simp
  then have "list_all (inBox 800 600) (map position (asteroids (updatePhysics 800 600 edgeWorld)))"
    by (simp only: list_all_iff)
  with h1 h2 e f box show ?thesis by simp
qed

subsection \<open>Fire handler\<close>

text \<open>Claim C5. For a fire event (the Space key, while playing) with the ship not
  destroyed: with spread ammunition 0 exactly one bullet is appended, fired at the
  ship's rotation; with spread ammunition \<open>n > 0\<close> exactly three bullets are appended,
  fired at the rotation, the rotation minus 25 degrees and the rotation plus 25 degrees,
  and the spread ammunition becomes \<open>n - 1\<close>.\<close>
theorem fire_creates_bullets:
  assumes "\<not> destroyed (ship s)"
  shows "(spreadAmmo s = 0 \<longrightarrow>
            bullets (handleKeyDown ''Space'' PLAYING s)
              = bullets s @ [shotFrom (ship s) ''#ff00aa'' (rotation (ship s))] \<and>
            spreadAmmo (handleKeyDown ''Space'' PLAYING s) = 0) \<and>
         (spreadAmmo s > 0 \<longrightarrow>
            bullets (handleKeyDown ''Space'' PLAYING s)
              = bullets s @ map (shotFrom (ship s) ''#ff9900'')
                  [rotation (ship s),
                   rotation (ship s) - 25 * (pi / 180),
                   rotation (ship s) + 25 * (pi / 180)] \<and>
            spreadAmmo (handleKeyDown ''Space'' PLAYING s) = spreadAmmo s - 1)"
  using assms
  by (simp add: handleKeyDown_def fireAngles_def fireBullet_def shotFrom_def Let_def)

theorem fire_creates_bullets_witness:
  "\<not> destroyed (ship quietWorld) \<and> spreadAmmo quietWorld = 0 \<and>
   length (bullets (handleKeyDown ''Space'' PLAYING quietWorld)) = 1 \<and>
   \<not> destroyed (ship armedWorld) \<and> spreadAmmo armedWorld = 10 \<and>
   length (bullets (handleKeyDown ''Space'' PLAYING armedWorld)) = 3 \<and>
   spreadAmmo (handleKeyDown ''Space'' PLAYING armedWorld) = 9"
proof -
  have a: "\<not> destroyed (ship quietWorld)"
    by (simp add: quietWorld_def restShip_def)
  have b: "\<not> destroyed (ship armedWorld)"
    by (simp add: armedWorld_def quietWorld_def restShip_def)
  have c: "spreadAmmo quietWorld = 0" "bullets quietWorld = []"
    by (simp_all add: quietWorld_def)
  have d: "spreadAmmo armedWorld = 10" "bullets armedWorld = []"
    by (simp_all add: armedWorld_def quietWorld_def)
  show ?thesis
    using a b c d fire_creates_bullets [OF a] fire_creates_bullets [OF b] by simp
qed

subsection \<open>Ship against asteroids: destruction\<close>

lemma killShip_fields:
  "destroyed (ship (killShip width height s))"
  "lives (killShip width height s) = lives s - 1"
  "spreadAmmo (killShip width height s) = 0"
  "asteroids (killShip width height s) = asteroids s"
  "events (killShip width height s) = events s @
     [PlayExplosion ''large'', LivesUpdate (lives s - 1), AmmoUpdate 0,
      if lives s - 1 \<le> 0 then SetTimeout GameOverTimer 1000
      else SetTimeout (RespawnTimer width height) 2000]"
  by (simp_all add: killShip_def Let_def)

lemma shipScan_eq:
  "shipScan width height as s =
     (if \<exists>a \<in> set as. overlapsShip (ship s) a then killShip width height s else s)"
  by (induction as) (auto simp: overlapsShip_def)

text \<open>Claim C6. When the ship is neither destroyed nor invulnerable and some asteroid
  overlaps it, the ship-asteroid test sets the destroyed flag, takes exactly one life,
  sets the spread ammunition to 0 whatever it was, and handles exactly one asteroid:
  one explosion, one lives update, one ammunition update and one timer are emitted,
  however many asteroids overlap.\<close>
theorem first_overlap_destroys_ship:
  assumes "\<not> destroyed (ship s)" and "invulnerable (ship s) \<le> 0"
    and "\<exists>a \<in> set (asteroids s). overlapsShip (ship s) a"
  shows "destroyed (ship (shipVsAsteroids width height s)) \<and>
         lives (shipVsAsteroids width height s) = lives s - 1 \<and>
         spreadAmmo (shipVsAsteroids width height s) = 0 \<and>
         asteroids (shipVsAsteroids width height s) = asteroids s \<and>
         events (shipVsAsteroids width height s) = events s @
           [PlayExplosion ''large'', LivesUpdate (lives s - 1), AmmoUpdate 0,
            if lives s - 1 \<le> 0 then SetTimeout GameOverTimer 1000
            else SetTimeout (RespawnTimer width height) 2000]"
  using assms by (simp add: shipVsAsteroids_def shipScan_eq killShip_fields)

theorem first_overlap_destroys_ship_witness:
  "\<not> destroyed (ship crowdedWorld) \<and> invulnerable (ship crowdedWorld) \<le> 0 \<and>
   overlapsShip (ship crowdedWorld) (rock 2 410 300) \<and>
   overlapsShip (ship crowdedWorld) (rock 4 400 310) \<and>
   lives crowdedWorld = 3 \<and> spreadAmmo crowdedWorld = 7 \<and>
   destroyed (ship (shipVsAsteroids 800 600 crowdedWorld)) \<and>
   lives (shipVsAsteroids 800 600 crowdedWorld) = 2 \<and>
   spreadAmmo (shipVsAsteroids 800 600 crowdedWorld) = 0 \<and>
   length (events (shipVsAsteroids 800 600 crowdedWorld)) = 4"
proof -
  have sh: "ship crowdedWorld = restShip"
    by (simp add: crowdedWorld_def quietWorld_def)
  have h1: "\<not> destroyed (ship crowdedWorld)" and h2: "invulnerable (ship crowdedWorld) \<le> 0"
    by (simp_all add: sh restShip_def)
  have o1: "overlapsShip (ship crowdedWorld) (rock 2 410 300)"
    and o2: "overlapsShip (ship crowdedWorld) (rock 4 400 310)"
    by (simp_all add: sh restShip_def rock_def overlapsShip_def dist_between_def
        hypot_less_iff SHIP_SIZE_def)
  have h3: "\<exists>a \<in> set (asteroids crowdedWorld). overlapsShip (ship crowdedWorld) a"
    using o1 by (simp add: crowdedWorld_def quietWorld_def)
  have v: "lives crowdedWorld = 3" "spreadAmmo crowdedWorld = 7" "events crowdedWorld = []"
    by (simp_all add: crowdedWorld_def quietWorld_def)
  show ?thesis
    using h1 h2 o1 o2 v first_overlap_destroys_ship [OF h1 h2 h3, of 800 600] by simp
qed

subsection \<open>Ship against powerups\<close>

lemma collectPowerup_fields [simp]:
  "ship (collectPowerup i s) = ship s"
  "powerups (collectPowerup i s) = splice1 i (powerups s)"
  "asteroids (collectPowerup i s) = asteroids s"
  "bullets (collectPowerup i s) = bullets s"
  "shotsHit (collectPowerup i s) = shotsHit s"
  "shotsFired (collectPowerup i s) = shotsFired s"
  "score (collectPowerup i s) = score s"
  "waveCount (collectPowerup i s) = waveCount s"
  "rand (collectPowerup i s) = rand s"
  by (simp_all add: collectPowerup_def Let_def split: PowerupKind.split)

lemma collectPowerup_lives:
  "lives (collectPowerup i s) =
     (case kind (powerups s ! i) of
        Life \<Rightarrow> (if lives s < 5 then lives s + 1 else lives s)
      | Spread \<Rightarrow> lives s)"
  by (simp add: collectPowerup_def Let_def split: PowerupKind.split)

lemma collectPowerup_ammo:
  "spreadAmmo (collectPowerup i s) =
     (case kind (powerups s ! i) of Life \<Rightarrow> spreadAmmo s | Spread \<Rightarrow> 50)"
  by (simp add: collectPowerup_def Let_def SPREAD_AMMO_COUNT_def split: PowerupKind.split)

lemma powerupLoop_ship [simp]: "ship (powerupLoop n s) = ship s"
  by (induction n arbitrary: s) simp_all

lemma powerupLoop_lives_cap: "lives s \<le> 5 \<Longrightarrow> lives (powerupLoop n s) \<le> 5"
proof (induction n arbitrary: s)
  case 0
  then show ?case by simp
next
  case (Suc n)
  have "lives (collectPowerup n s) \<le> 5"
    using Suc.prems by (simp add: collectPowerup_lives split: PowerupKind.split)
  with Suc show ?case by simp
qed

lemma powerupLoop_lives_mono: "lives s \<le> lives (powerupLoop n s)"
proof (induction n arbitrary: s)
  case 0
  then show ?case by simp
next
  case (Suc n)
  have "lives s \<le> lives (collectPowerup n s)"
    by (simp add: collectPowerup_lives split: PowerupKind.split)
  moreover have "lives (collectPowerup n s) \<le> lives (powerupLoop n (collectPowerup n s))"
    and "lives s \<le> lives (powerupLoop n s)"
    by (rule Suc.IH)+
  ultimately show ?case by simp
qed

lemma powerupLoop_powerups:
  "n \<le> length (powerups s) \<Longrightarrow>
   powerups (powerupLoop n s) =
     filter (\<lambda>p. \<not> touchesShip (ship s) p) (take n (powerups s)) @ drop n (powerups s)"
proof (induction n arbitrary: s)
  case 0
  then show ?case by simp
next
  case (Suc n)
  then have n: "n < length (powerups s)" by simp
  have tk: "take (Suc n) (powerups s) = take n (powerups s) @ [powerups s ! n]"
    using n by (simp add: take_Suc_conv_app_nth)
  show ?case
  proof (cases "touchesShip (ship s) (powerups s ! n)")
    case True
    then have "powerups (powerupLoop (Suc n) s) = powerups (powerupLoop n (collectPowerup n s))"
      by (simp add: touchesShip_def)
    also have "\<dots> = filter (\<lambda>p. \<not> touchesShip (ship s) p) (take n (powerups s))
                     @ drop (Suc n) (powerups s)"
      using n Suc.IH[of "collectPowerup n s"] by simp
    finally show ?thesis using True by (simp add: tk)
  next
    case False
    then have "powerups (powerupLoop (Suc n) s) = powerups (powerupLoop n s)"
      by (simp add: touchesShip_def)
    also have "\<dots> = filter (\<lambda>p. \<not> touchesShip (ship s) p) (take n (powerups s))
                     @ drop n (powerups s)"
      using n Suc.IH[of s] by simp
    finally show ?thesis
      using False n by (simp add: tk Cons_nth_drop_Suc)
  qed
qed

text \<open>Claim C7. Collecting the powerup at index \<open>i\<close>: a life powerup adds one life
  only when the lives are below 5 and leaves the ammunition alone; a spread powerup sets
  the spread ammunition to 50 whatever it was; lives that are at most 5 stay at most 5,
  after one collection and after the whole ship-powerup pass; and the collected powerup
  is removed from the collection.\<close>
theorem powerup_collection_effects:
  assumes "i < length (powerups s)"
  shows "(kind (powerups s ! i) = Life \<longrightarrow>
            lives (collectPowerup i s) = (if lives s < 5 then lives s + 1 else lives s) \<and>
            spreadAmmo (collectPowerup i s) = spreadAmmo s) \<and>
         (kind (powerups s ! i) = Spread \<longrightarrow>
            spreadAmmo (collectPowerup i s) = 50 \<and> lives (collectPowerup i s) = lives s) \<and>
         (lives s \<le> 5 \<longrightarrow> lives (collectPowerup i s) \<le> 5 \<and> lives (shipVsPowerups s) \<le> 5) \<and>
         powerups (collectPowerup i s) = take i (powerups s) @ drop (Suc i) (powerups s) \<and>
         length (powerups (collectPowerup i s)) = length (powerups s) - 1"
  using assms
  by (auto simp: collectPowerup_lives collectPowerup_ammo shipVsPowerups_def
      powerupLoop_lives_cap splice1_def split: PowerupKind.splits)

theorem powerup_collection_effects_witness:
  "kind (powerups pickupWorld ! 1) = Life \<and> lives pickupWorld = 5 \<and>
   lives (collectPowerup 1 pickupWorld) = 5 \<and>
   kind (powerups pickupWorld ! 2) = Spread \<and> spreadAmmo pickupWorld = 3 \<and>
   spreadAmmo (collectPowerup 2 pickupWorld) = 50 \<and>
   length (powerups (collectPowerup 2 pickupWorld)) = 2 \<and>
   lives (shipVsPowerups pickupWorld) \<le> 5"
proof -
  have l: "length (powerups pickupWorld) = 3" "lives pickupWorld = 5" "spreadAmmo pickupWorld = 3"
    by (simp_all add: pickupWorld_def quietWorld_def)
  have k: "kind (powerups pickupWorld ! 1) = Life" "kind (powerups pickupWorld ! 2) = Spread"
    by (simp_all add: pickupWorld_def quietWorld_def)
  have i1: "1 < length (powerups pickupWorld)" and i2: "2 < length (powerups pickupWorld)"
    using l by simp_all
  show ?thesis
    using l k powerup_collection_effects [OF i1] powerup_collection_effects [OF i2] by simp
qed

subsection \<open>Bullets against asteroids\<close>

lemma pushFragment_frame [simp]:
  "ship (pushFragment a s) = ship s"
  "bullets (pushFragment a s) = bullets s"
  "particles (pushFragment a s) = particles s"
  "powerups (pushFragment a s) = powerups s"
  "score (pushFragment a s) = score s"
  "shotsFired (pushFragment a s) = shotsFired s"
  "shotsHit (pushFragment a s) = shotsHit s"
  "waveCount (pushFragment a s) = waveCount s"
  "spreadAmmo (pushFragment a s) = spreadAmmo s"
  "lives (pushFragment a s) = lives s"
  "keys (pushFragment a s) = keys s"
  "rand (pushFragment a s) = rand s"
  "events (pushFragment a s) = events s"
  by (simp_all add: pushFragment_def Let_def)

lemma pushFragment_asteroids:
  "\<exists>c. asteroids (pushFragment a s) = asteroids s @ [c] \<and> fragmentOf a c"
  by (simp add: pushFragment_def Let_def fragmentOf_def)

lemma resolveHit_frame [simp]:
  "ship (resolveHit j s) = ship s"
  "bullets (resolveHit j s) = bullets s"
  "powerups (resolveHit j s) = powerups s"
  "shotsFired (resolveHit j s) = shotsFired s"
  "waveCount (resolveHit j s) = waveCount s"
  "spreadAmmo (resolveHit j s) = spreadAmmo s"
  "lives (resolveHit j s) = lives s"
  "keys (resolveHit j s) = keys s"
  "rand (resolveHit j s) = rand s"
  by (simp_all add: resolveHit_def Let_def)

lemma resolveHit_counters:
  "shotsHit (resolveHit j s) = shotsHit s + 1"
  "score (resolveHit j s) = score s + points_for (sizeClass (asteroids s ! j))"
  by (simp_all add: resolveHit_def Let_def)

lemma resolveHit_asteroids:
  assumes "j < length (asteroids s)"
  shows "\<exists>kids. asteroids (resolveHit j s) = splice1 j (asteroids s) @ kids \<and>
                length kids = (if sizeClass (asteroids s ! j) > 1 then 2 else 0) \<and>
                (\<forall>c \<in> set kids. fragmentOf (asteroids s ! j) c)"
proof (cases "sizeClass (asteroids s ! j) > 1")
  case False
  then show ?thesis by (simp add: resolveHit_def Let_def)
next
  case True
  define a where "a = asteroids s ! j"
  define s5 where "s5 = emit (ScoreUpdate (score s + points_for (sizeClass a)))
        ((createParticles (position a) (nat (5 + sizeClass a * 2)) ''#00f3ff''
           (emit (PlayExplosion (explosion_for (sizeClass a))) s))
         \<lparr>shotsHit := shotsHit s + 1, score := score s + points_for (sizeClass a)\<rparr>)"
  have s5a: "asteroids s5 = asteroids s" by (simp add: s5_def)
  obtain c1 where c1: "asteroids (pushFragment a s5) = asteroids s5 @ [c1]" "fragmentOf a c1"
    using pushFragment_asteroids by blast
  obtain c2 where c2: "asteroids (pushFragment a (pushFragment a s5))
        = asteroids (pushFragment a s5) @ [c2]" "fragmentOf a c2"
    using pushFragment_asteroids by blast
  have "resolveHit j s = (pushFragment a (pushFragment a s5))
          \<lparr>asteroids := splice1 j (asteroids (pushFragment a (pushFragment a s5)))\<rparr>"
    using True by (simp add: resolveHit_def Let_def a_def s5_def)
  then have "asteroids (resolveHit j s) = splice1 j (asteroids s) @ [c1, c2]"
    using assms by (simp add: c1 c2 s5a splice1_def)
  then show ?thesis using True c1 c2 by (auto simp: a_def)
qed

lemma scanAsteroids_hit_iff:
  "fst (scanAsteroids b n s) \<longleftrightarrow> (\<exists>j<n. hitsAsteroid b (asteroids s ! j))"
  by (induction n) (auto simp: hitsAsteroid_def less_Suc_eq)

lemma scanAsteroids_True:
  "scanAsteroids b n s = (True, s') \<Longrightarrow>
   \<exists>j<n. hitsAsteroid b (asteroids s ! j) \<and>
          (\<forall>i. j < i \<and> i < n \<longrightarrow> \<not> hitsAsteroid b (asteroids s ! i)) \<and>
          s' = resolveHit j s"
proof (induction n)
  case 0
  then show ?case by simp
next
  case (Suc n)
  show ?case
  proof (cases "hitsAsteroid b (asteroids s ! n)")
    case True
    with Suc.prems have "s' = resolveHit n s" by (simp add: hitsAsteroid_def)
    with True show ?thesis by auto
  next
    case False
    with Suc.prems have "scanAsteroids b n s = (True, s')" by (simp add: hitsAsteroid_def)
    from Suc.IH[OF this] obtain j where j: "j < n" "hitsAsteroid b (asteroids s ! j)"
      "\<forall>i. j < i \<and> i < n \<longrightarrow> \<not> hitsAsteroid b (asteroids s ! i)" "s' = resolveHit j s"
      by blast
    with False have "\<forall>i. j < i \<and> i < Suc n \<longrightarrow> \<not> hitsAsteroid b (asteroids s ! i)"
      by (auto simp: less_Suc_eq)
    with j show ?thesis by (intro exI[of _ j]) simp
  qed
qed

text \<open>Claim C3. When the scan of the asteroids for a bullet ends in a hit, the struck
  asteroid is one that the bullet hits; with \<open>k\<close> its size class, the score grows by
  exactly 15 if \<open>k = 4\<close>, 20 if \<open>k = 3\<close>, 50 if \<open>k = 2\<close> and 100 if \<open>k = 1\<close>,
  whatever the score was; the struck asteroid is removed from the collection; and the
  asteroids appended are exactly two of size class \<open>k - 1\<close> at the position of the
  struck one when \<open>k > 1\<close>, and none when \<open>k = 1\<close>.\<close>
theorem bullet_hit_resolution:
  assumes "n \<le> length (asteroids s)" and "scanAsteroids b n s = (True, s')"
  shows "\<exists>j<n. hitsAsteroid b (asteroids s ! j) \<and>
           (sizeClass (asteroids s ! j) = 4 \<longrightarrow> score s' = score s + 15) \<and>
           (sizeClass (asteroids s ! j) = 3 \<longrightarrow> score s' = score s + 20) \<and>
           (sizeClass (asteroids s ! j) = 2 \<longrightarrow> score s' = score s + 50) \<and>
           (sizeClass (asteroids s ! j) = 1 \<longrightarrow> score s' = score s + 100) \<and>
           (\<exists>kids. asteroids s' = take j (asteroids s) @ drop (Suc j) (asteroids s) @ kids \<and>
                   length kids = (if sizeClass (asteroids s ! j) > 1 then 2 else 0) \<and>
                   (\<forall>c \<in> set kids. sizeClass c = sizeClass (asteroids s ! j) - 1 \<and>
                                    position c = position (asteroids s ! j)))"
proof -
  from scanAsteroids_True[OF assms(2)] obtain j where j: "j < n"
    "hitsAsteroid b (asteroids s ! j)" "s' = resolveHit j s"
    by blast
  from j(1) assms(1) have jl: "j < length (asteroids s)" by simp
  from resolveHit_asteroids[OF jl] obtain kids where
    k: "asteroids (resolveHit j s) = splice1 j (asteroids s) @ kids"
      "length kids = (if sizeClass (asteroids s ! j) > 1 then 2 else 0)"
      "\<forall>c \<in> set kids. fragmentOf (asteroids s ! j) c"
    by blast
  have sc: "score s' = score s + points_for (sizeClass (asteroids s ! j))"
    using j(3) by (simp add: resolveHit_counters)
  have "\<exists>kids. asteroids s' = take j (asteroids s) @ drop (Suc j) (asteroids s) @ kids \<and>
               length kids = (if sizeClass (asteroids s ! j) > 1 then 2 else 0) \<and>
               (\<forall>c \<in> set kids. sizeClass c = sizeClass (asteroids s ! j) - 1 \<and>
                                position c = position (asteroids s ! j))"
    using k j(3) by (intro exI[of _ kids]) (simp add: splice1_def fragmentOf_def)
  with j(1,2) sc show ?thesis
    by (intro exI[of _ j]) (simp add: points_for_def)
qed


lemma strikeWorld_scan:
  "scanAsteroids strikeBullet 2 strikeWorld = (True, resolveHit 1 strikeWorld)"
proof -
  have "scanAsteroids strikeBullet (Suc (Suc 0)) strikeWorld = (True, resolveHit (Suc 0) strikeWorld)"
    by (simp add: strikeWorld_def strikeBullet_def quietWorld_def rock_def dist_between_def
        hypot_less_iff)
  then show ?thesis by (simp add: numeral_2_eq_2)
qed

theorem bullet_hit_resolution_witness:
  "2 \<le> length (asteroids strikeWorld) \<and>
   scanAsteroids strikeBullet 2 strikeWorld = (True, resolveHit 1 strikeWorld) \<and>
   \<not> hitsAsteroid strikeBullet (asteroids strikeWorld ! 0) \<and>
   sizeClass (asteroids strikeWorld ! 1) = 3 \<and>
   score strikeWorld = 130 \<and>
   score (resolveHit 1 strikeWorld) = 150 \<and>
   length (asteroids (resolveHit 1 strikeWorld)) = 3"
proof -
  have h1: "2 \<le> length (asteroids strikeWorld)"
    by (simp add: strikeWorld_def quietWorld_def)
  have a: "asteroids strikeWorld ! 0 = rock 1 700 500" "asteroids strikeWorld ! 1 = rock 3 200 200"
    "score strikeWorld = 130" "length (asteroids strikeWorld) = 2"
    by (simp_all add: strikeWorld_def quietWorld_def)
  have n0: "\<not> hitsAsteroid strikeBullet (rock 1 700 500)"
    by (simp add: hitsAsteroid_def strikeBullet_def rock_def dist_between_def hypot_less_iff)
  have k: "sizeClass (rock 1 700 500) = 1" "sizeClass (rock 3 200 200) = 3"
    by (simp_all add: rock_def)
  from bullet_hit_resolution [OF h1 strikeWorld_scan] obtain j kids where
    j: "j < 2" "hitsAsteroid strikeBullet (asteroids strikeWorld ! j)"
      "sizeClass (asteroids strikeWorld ! j) = 3 \<longrightarrow>
         score (resolveHit 1 strikeWorld) = score strikeWorld + 20"
      "asteroids (resolveHit 1 strikeWorld) =
         take j (asteroids strikeWorld) @ drop (Suc j) (asteroids strikeWorld) @ kids"
      "length kids = (if sizeClass (asteroids strikeWorld ! j) > 1 then 2 else 0)"
    by blast
  from j(1) have "j = 0 \<or> j = 1" by auto
  with j(2) n0 a have j1: "j = 1" by auto
  have "score (resolveHit 1 strikeWorld) = 150"
    using j(3) j1 a k by simp
  moreover have "length (asteroids (resolveHit 1 strikeWorld)) = 3"
    using j(4,5) j1 a k by simp
  ultimately show ?thesis
    using h1 strikeWorld_scan n0 a k by simp
qed

lemma shipVsPowerups_powerups:
  "\<not> destroyed (ship s) \<Longrightarrow>
   powerups (shipVsPowerups s) = filter (\<lambda>p. \<not> touchesShip (ship s) p) (powerups s)"
  by (simp add: shipVsPowerups_def powerupLoop_powerups)

subsection \<open>The collision tests\<close>

text \<open>Claim C1, as stated, fails for bullets: the bullet-asteroid test compares the
  distance with the radius of the asteroid alone. A bullet of radius 2 at distance 19
  from the centre of an asteroid of radius 18 is closer than the sum of the radii, yet
  the scan reports no hit and the pass changes nothing.\<close>
theorem bullet_radius_ignored_counterexample:
  "dist_between (position grazeBullet) (position (rock 1 100 100))
     < radius (rock 1 100 100) + radius grazeBullet \<and>
   bullets grazeWorld = [grazeBullet] \<and> asteroids grazeWorld = [rock 1 100 100] \<and>
   \<not> fst (scanAsteroids grazeBullet (length (asteroids grazeWorld)) grazeWorld) \<and>
   bulletsVsAsteroids grazeWorld = grazeWorld"
  by (simp add: grazeWorld_def grazeBullet_def quietWorld_def rock_def dist_between_def
      hypot_less_iff bulletsVsAsteroids_def)

text \<open>Claim C1, amended. A bullet is judged to hit iff its distance to the centre of
  some asteroid is less than the radius of that asteroid (the radius of the bullet is not
  counted); a ship that is neither destroyed nor invulnerable is judged hit iff its
  distance to some asteroid is less than the sum of the two radii minus 5; and a ship that
  is not destroyed collects exactly the powerups whose distance to it is less than the sum
  of the two radii.\<close>
theorem collision_tests:
  "(fst (scanAsteroids b (length (asteroids s)) s) \<longleftrightarrow>
      (\<exists>a \<in> set (asteroids s). dist_between (position b) (position a) < radius a)) \<and>
   (\<not> destroyed (ship s) \<and> invulnerable (ship s) \<le> 0 \<longrightarrow>
      (destroyed (ship (shipVsAsteroids width height s)) \<longleftrightarrow>
         (\<exists>a \<in> set (asteroids s).
            dist_between (position (ship s)) (position a) < radius a + radius (ship s) - 5))) \<and>
   (\<not> destroyed (ship s) \<longrightarrow>
      powerups (shipVsPowerups s) =
        filter (\<lambda>p. \<not> dist_between (position (ship s)) (position p) < radius p + radius (ship s))
          (powerups s))"
proof -
  have "fst (scanAsteroids b (length (asteroids s)) s) \<longleftrightarrow>
          (\<exists>a \<in> set (asteroids s). dist_between (position b) (position a) < radius a)"
    unfolding scanAsteroids_hit_iff hitsAsteroid_def by (metis in_set_conv_nth)
  moreover have "powerups (shipVsPowerups s) =
        filter (\<lambda>p. \<not> dist_between (position (ship s)) (position p) < radius p + radius (ship s))
          (powerups s)" if "\<not> destroyed (ship s)"
    using shipVsPowerups_powerups[OF that] by (simp add: touchesShip_def)
  moreover have "destroyed (ship (shipVsAsteroids width height s)) \<longleftrightarrow>
         (\<exists>a \<in> set (asteroids s).
            dist_between (position (ship s)) (position a) < radius a + radius (ship s) - 5)"
    if "\<not> destroyed (ship s)" "invulnerable (ship s) \<le> 0"
    using that by (simp add: shipVsAsteroids_def shipScan_eq killShip_fields overlapsShip_def)
  ultimately show ?thesis by blast
qed

theorem collision_tests_witness:
  "fst (scanAsteroids strikeBullet (length (asteroids strikeWorld)) strikeWorld) \<and>
   \<not> destroyed (ship crowdedWorld) \<and> invulnerable (ship crowdedWorld) \<le> 0 \<and>
   destroyed (ship (shipVsAsteroids 800 600 crowdedWorld)) \<and>
   \<not> destroyed (ship pickupWorld) \<and>
   map kind (powerups (shipVsPowerups pickupWorld)) = [Spread] \<and>
   map lifeTime (powerups (shipVsPowerups pickupWorld)) = [200]"
proof -
  have sh: "ship crowdedWorld = restShip" "ship pickupWorld = restShip"
    by (simp_all add: crowdedWorld_def pickupWorld_def quietWorld_def)
  have g: "\<not> destroyed restShip" "invulnerable restShip \<le> 0"
    by (simp_all add: restShip_def)
  have a: "asteroids strikeWorld = [rock 1 700 500, rock 3 200 200]"
    "asteroids crowdedWorld = [rock 1 700 500, rock 2 410 300, rock 4 400 310]"
    by (simp_all add: strikeWorld_def crowdedWorld_def quietWorld_def)
  have d: "dist_between (position strikeBullet) (position (rock 3 200 200)) < radius (rock 3 200 200)"
    "dist_between (position restShip) (position (rock 2 410 300)) < radius (rock 2 410 300) + radius restShip - 5"
    by (simp_all add: strikeBullet_def restShip_def rock_def dist_between_def hypot_less_iff SHIP_SIZE_def)
  have p: "map kind (filter (\<lambda>p. \<not> dist_between (position restShip) (position p) < radius p + radius restShip)
             (powerups pickupWorld)) = [Spread]"
    "map lifeTime (filter (\<lambda>p. \<not> dist_between (position restShip) (position p) < radius p + radius restShip)
             (powerups pickupWorld)) = [200]"
    by (simp_all add: pickupWorld_def quietWorld_def restShip_def dist_between_def hypot_less_iff SHIP_SIZE_def)
  show ?thesis
    using sh g a d p collision_tests [of strikeBullet strikeWorld 800 600]
      collision_tests [of strikeBullet crowdedWorld 800 600]
      collision_tests [of strikeBullet pickupWorld 800 600]
    by simp
qed

subsection \<open>Wave completion\<close>

lemma pickPosition_returns:
  assumes "\<not> hypot (rn (i + 2 * k) * width - width / 2)
                 (rn (Suc (i + 2 * k)) * height - height / 2) < 150"
  shows "\<exists>x y j. pickPosition rn width height i = Some (x, y, j)"
  using assms
proof (induction k arbitrary: i)
  case 0
  then show ?case by (subst pickPosition.simps) simp
next
  case (Suc k)
  show ?case
  proof (cases "hypot (rn i * width - width / 2) (rn (Suc i) * height - height / 2) < 150")
    case False
    then show ?thesis by (subst pickPosition.simps) simp
  next
    case True
    from Suc.prems have "\<not> hypot (rn ((i + 2) + 2 * k) * width - width / 2)
                 (rn (Suc ((i + 2) + 2 * k)) * height - height / 2) < 150"
      by (simp add: add.commute add.left_commute)
    from Suc.IH[OF this] obtain x y j where "pickPosition rn width height (i + 2) = Some (x, y, j)"
      by blast
    with True show ?thesis by (subst pickPosition.simps) simp
  qed
qed

lemma genAsteroid_returns:
  assumes "escapes rn width height"
  shows "\<exists>a j. genAsteroid currentScore width height rn i = Some (a, j)"
proof -
  from assms obtain k where "\<not> hypot (rn (Suc i + 2 * k) * width - width / 2)
                 (rn (Suc (Suc i + 2 * k)) * height - height / 2) < 150"
    unfolding escapes_def by blast
  from pickPosition_returns[OF this] obtain x y j where
    "pickPosition rn width height (Suc i) = Some (x, y, j)" by blast
  then show ?thesis by (simp add: genAsteroid_def Let_def)
qed

lemma spawnBatch_returns:
  assumes "escapes rn width height"
  shows "\<exists>as j. spawnBatch n currentScore width height rn i = Some (as, j) \<and> length as = n"
proof (induction n arbitrary: i)
  case 0
  then show ?case by simp
next
  case (Suc n)
  from genAsteroid_returns[OF assms] obtain a j where
    a: "genAsteroid currentScore width height rn i = Some (a, j)" by blast
  from Suc.IH obtain as k where
    "spawnBatch n currentScore width height rn j = Some (as, k)" "length as = n" by blast
  with a show ?case by simp
qed

lemma spawnAsteroids_returns:
  assumes "escapes (rand s) width height"
  shows "\<exists>as k. spawnAsteroids count width height s = Some (s\<lparr>asteroids := asteroids s @ as, drawn := k\<rparr>)
               \<and> length as = nat count"
proof -
  from spawnBatch_returns[OF assms] obtain as k where
    "spawnBatch (nat count) (score s) width height (rand s) (drawn s) = Some (as, k)"
    "length as = nat count" by blast
  then show ?thesis by (auto simp: spawnAsteroids_def)
qed

lemma spawnPowerup_fields:
  "\<exists>p. powerups (spawnPowerup knd width height s) = powerups s @ [p] \<and> kind p = knd"
  "asteroids (spawnPowerup knd width height s) = asteroids s"
  "waveCount (spawnPowerup knd width height s) = waveCount s"
  by (simp_all add: spawnPowerup_def)

text \<open>Claim C4. When the asteroid collection is empty at the wave-completion test while
  the game state is playing (the wave counter being, as always, not negative, and the
  draws letting the spawner leave the safe zone), the test returns with the wave counter
  incremented by exactly 1 and with exactly \<open>5 + score div 800\<close> asteroids, all new; and
  exactly one life powerup is appended iff the new wave counter is a multiple of 5.\<close>
theorem wave_completion:
  assumes "asteroids s = []" and "0 \<le> waveCount s" and "escapes (rand s) width height"
  shows "\<exists>s'. waveCheck width height PLAYING s = Some s' \<and>
              waveCount s' = waveCount s + 1 \<and>
              length (asteroids s') = nat (5 + score s div 800) \<and>
              (0 \<le> score s \<longrightarrow> int (length (asteroids s')) = 5 + score s div 800) \<and>
              ((waveCount s + 1) mod 5 = 0 \<longrightarrow>
                 (\<exists>p. powerups s' = powerups s @ [p] \<and> kind p = Life)) \<and>
              ((waveCount s + 1) mod 5 \<noteq> 0 \<longrightarrow> powerups s' = powerups s)"
proof -
  define s1 where "s1 = s\<lparr>waveCount := waveCount s + 1\<rparr>"
  have "escapes (rand s1) width height" using assms(3) by (simp add: s1_def)
  from spawnAsteroids_returns[OF this, of "5 + score s1 div 800"] obtain as k where
    sp: "spawnAsteroids (5 + score s1 div 800) width height s1
           = Some (s1\<lparr>asteroids := asteroids s1 @ as, drawn := k\<rparr>)"
    and len: "length as = nat (5 + score s1 div 800)"
    by blast
  define s2 where "s2 = s1\<lparr>asteroids := asteroids s1 @ as, drawn := k\<rparr>"
  have s2: "waveCount s2 = waveCount s + 1" "asteroids s2 = as" "powerups s2 = powerups s"
    "score s1 = score s"
    using assms(1) by (simp_all add: s2_def s1_def)
  have pos: "waveCount s2 > 0" using assms(2) s2 by simp
  have nonneg: "0 \<le> score s \<Longrightarrow> 0 \<le> 5 + score s div 800"
    by (simp add: pos_imp_zdiv_nonneg_iff)
  show ?thesis
  proof (cases "(waveCount s + 1) mod 5 = 0")
    case True
    then have w: "waveCheck width height PLAYING s = Some (spawnPowerup Life width height s2)"
      using assms(1) sp pos s2 by (simp add: waveCheck_def Let_def s1_def[symmetric] s2_def[symmetric])
    obtain p where "powerups (spawnPowerup Life width height s2) = powerups s2 @ [p]" "kind p = Life"
      using spawnPowerup_fields(1) by blast
    with w True len s2 nonneg show ?thesis
      by (simp add: spawnPowerup_fields)
  next
    case False
    then have w: "waveCheck width height PLAYING s = Some s2"
      using assms(1) sp s2 by (simp add: waveCheck_def Let_def s1_def[symmetric] s2_def[symmetric])
    with False len s2 nonneg show ?thesis by simp
  qed
qed

lemma zero_draws_escape: "escapes (\<lambda>_. 0) 800 600"
  by (simp add: escapes_def hypot_less_iff)

theorem wave_completion_witness:
  "asteroids quietWorld = [] \<and> 0 \<le> waveCount quietWorld \<and> escapes (rand quietWorld) 800 600 \<and>
   (\<exists>s'. waveCheck 800 600 PLAYING quietWorld = Some s' \<and> waveCount s' = 1 \<and>
          length (asteroids s') = 5 \<and> powerups s' = []) \<and>
   asteroids lateWorld = [] \<and> 0 \<le> waveCount lateWorld \<and> escapes (rand lateWorld) 800 600 \<and>
   (\<exists>s'. waveCheck 800 600 PLAYING lateWorld = Some s' \<and> waveCount s' = 5 \<and>
          length (asteroids s') = 7 \<and> length (powerups s') = 1)"
proof -
  have q: "asteroids quietWorld = []" "waveCount quietWorld = 0" "rand quietWorld = (\<lambda>_. 0)"
    "score quietWorld = 0" "powerups quietWorld = []"
    by (simp_all add: quietWorld_def)
  have l: "asteroids lateWorld = []" "waveCount lateWorld = 4" "rand lateWorld = (\<lambda>_. 0)"
    "score lateWorld = 1700" "powerups lateWorld = []"
    by (simp_all add: lateWorld_def quietWorld_def)
  have q2: "0 \<le> waveCount quietWorld" and l2: "0 \<le> waveCount lateWorld"
    and q3: "escapes (rand quietWorld) 800 600" and l3: "escapes (rand lateWorld) 800 600"
    by (simp_all add: q l zero_draws_escape)
  from wave_completion [OF q(1) q2 q3] obtain s' where
    "waveCheck 800 600 PLAYING quietWorld = Some s'" "waveCount s' = 1"
    "length (asteroids s') = 5" "powerups s' = []"
    by (auto simp: q)
  moreover from wave_completion [OF l(1) l2 l3] obtain t' where
    "waveCheck 800 600 PLAYING lateWorld = Some t'" "waveCount t' = 5"
    "length (asteroids t') = 7" "length (powerups t') = 1"
    by (auto simp: l)
  ultimately show ?thesis using q(1) l(1) q2 l2 q3 l3 by blast
qed

subsection \<open>Shots and hits\<close>

lemma handleInput_frame [simp]:
  "asteroids (handleInput s) = asteroids s"
  "bullets (handleInput s) = bullets s"
  "particles (handleInput s) = particles s"
  "powerups (handleInput s) = powerups s"
  "score (handleInput s) = score s"
  "shotsFired (handleInput s) = shotsFired s"
  "shotsHit (handleInput s) = shotsHit s"
  "waveCount (handleInput s) = waveCount s"
  "spreadAmmo (handleInput s) = spreadAmmo s"
  "lives (handleInput s) = lives s"
  "keys (handleInput s) = keys s"
  "rand (handleInput s) = rand s"
  by (simp_all add: handleInput_def Let_def)

lemma updatePhysics_frame [simp]:
  "score (updatePhysics width height s) = score s"
  "shotsFired (updatePhysics width height s) = shotsFired s"
  "shotsHit (updatePhysics width height s) = shotsHit s"
  "waveCount (updatePhysics width height s) = waveCount s"
  "spreadAmmo (updatePhysics width height s) = spreadAmmo s"
  "lives (updatePhysics width height s) = lives s"
  "keys (updatePhysics width height s) = keys s"
  "rand (updatePhysics width height s) = rand s"
  by (simp_all add: updatePhysics_def)

lemma updatePhysics_bullets:
  "bullets (updatePhysics width height s) =
     filter (\<lambda>b. \<not> bulletOut width height b) (map moveBullet (bullets s))"
  by (simp add: updatePhysics_def sweep_eq)

lemma updatePhysics_powerups:
  "powerups (updatePhysics width height s) =
     filter (\<lambda>p. \<not> lifeTime p \<le> 0) (map agePowerup (powerups s))"
  by (simp add: updatePhysics_def sweep_eq)

lemma handleKeyDown_fire:
  assumes "\<not> destroyed (ship s)"
  shows "ship (handleKeyDown ''Space'' PLAYING s) = ship s"
    "asteroids (handleKeyDown ''Space'' PLAYING s) = asteroids s"
    "powerups (handleKeyDown ''Space'' PLAYING s) = powerups s"
    "shotsHit (handleKeyDown ''Space'' PLAYING s) = shotsHit s"
    "shotsFired (handleKeyDown ''Space'' PLAYING s) = shotsFired s + 1"
    "keys (handleKeyDown ''Space'' PLAYING s) = (keys s)(''Space'' := True)"
    "bullets (handleKeyDown ''Space'' PLAYING s) =
       bullets s @ map (\<lambda>off. shotFrom (ship s) (if 0 < spreadAmmo s then ''#ff9900'' else ''#ff00aa'')
                                 (rotation (ship s) + off))
                    (fireAngles (0 < spreadAmmo s))"
  using assms
  by (simp_all add: handleKeyDown_def fireAngles_def fireBullet_def shotFrom_def Let_def)

lemma shot_stays_inside:
  assumes "position sh = \<lparr>px = 400, py = 300\<rparr>"
  shows "\<not> bulletOut 800 600 (moveBullet (shotFrom sh c angle))"
proof -
  have "bulletOut 800 600 (moveBullet (shotFrom sh c angle)) \<longleftrightarrow>
          400 + cos angle * 7 < 0 \<or> 400 < cos angle * 7 \<or>
          300 + sin angle * 7 < 0 \<or> 300 < sin angle * 7"
    using assms by (simp add: bulletOut_def moveBullet_def shotFrom_def BULLET_SPEED_def)
  moreover have "- 1 \<le> cos angle" "cos angle \<le> 1" "- 1 \<le> sin angle" "sin angle \<le> 1"
    by simp_all
  ultimately show ?thesis by linarith
qed

lemma shot_hits_asteroid_at_ship:
  assumes "position a = position sh" and "7 < radius a"
  shows "hitsAsteroid (moveBullet (shotFrom sh c angle)) a"
proof -
  have e: "(cos angle)\<^sup>2 = 1 - (sin angle)\<^sup>2"
    by (simp add: cos_squared_eq)
  have "(cos angle * 7)\<^sup>2 + (sin angle * 7)\<^sup>2 = 49 * (cos angle)\<^sup>2 + 49 * (sin angle)\<^sup>2"
    by (simp add: power_mult_distrib)
  also have "\<dots> = 7\<^sup>2"
    unfolding e by simp
  also have "\<dots> < (radius a)\<^sup>2"
    using assms(2) by (intro power_strict_mono) simp_all
  finally show ?thesis
    using assms
    by (simp add: hitsAsteroid_def dist_between_def hypot_less_iff moveBullet_def shotFrom_def
        BULLET_SPEED_def)
qed

lemma volley_step:
  assumes "asteroids s = as @ [a]" and "hitsAsteroid (bullets s ! i) a"
  shows "\<exists>s' kids. bulletLoop (Suc i) s = bulletLoop i s' \<and>
           bullets s' = splice1 i (bullets s) \<and>
           shotsHit s' = shotsHit s + 1 \<and> shotsFired s' = shotsFired s \<and>
           ship s' = ship s \<and> powerups s' = powerups s \<and>
           asteroids s' = as @ kids \<and>
           length kids = (if sizeClass a > 1 then 2 else 0) \<and>
           (\<forall>c \<in> set kids. fragmentOf a c)"
proof -
  have len: "length (asteroids s) = Suc (length as)" and nth: "asteroids s ! length as = a"
    using assms(1) by simp_all
  have scan: "scanAsteroids (bullets s ! i) (length (asteroids s)) s
                = (True, resolveHit (length as) s)"
    using assms(2) nth by (simp add: len hitsAsteroid_def)
  have "length as < length (asteroids s)" using len by simp
  from resolveHit_asteroids[OF this] obtain kids where
    k: "asteroids (resolveHit (length as) s) = splice1 (length as) (asteroids s) @ kids"
      "length kids = (if sizeClass a > 1 then 2 else 0)"
      "\<forall>c \<in> set kids. fragmentOf a c"
    using nth by auto
  have sp: "splice1 (length as) (asteroids s) = as"
    using assms(1) by (simp add: splice1_def)
  let ?s' = "(resolveHit (length as) s)\<lparr>bullets := splice1 i (bullets (resolveHit (length as) s))\<rparr>"
  have "bulletLoop (Suc i) s = bulletLoop i ?s'"
    using scan by simp
  moreover have "asteroids ?s' = as @ kids"
    using k(1) sp by simp
  ultimately show ?thesis
    using k(2,3) by (intro exI[of _ ?s'] exI[of _ kids]) (simp add: resolveHit_counters)
qed


lemma fragment_pair:
  assumes "length kids = (if sizeClass a > 1 then 2 else 0)" and "1 < sizeClass a"
    and "\<forall>c \<in> set kids. fragmentOf a c"
  shows "\<exists>c d. kids = [c, d] \<and> fragmentOf a d"
proof -
  from assms(1,2) have "length kids = Suc (Suc 0)" by simp
  then obtain c d where "kids = [c, d]"
    by (metis length_0_conv length_Suc_conv)
  with assms(3) show ?thesis by simp
qed

lemma volley_frame:
  "\<exists>s'. loop 800 600 PLAYING (handleKeyDown ''Space'' PLAYING volleyWorld) = Some s' \<and>
        shotsFired s' = 1 \<and> shotsHit s' = 3"
proof -
  define sh where "sh = restShip\<lparr>invulnerable := 120\<rparr>"
  define K where "K = handleKeyDown ''Space'' PLAYING volleyWorld"
  define P where "P = updatePhysics 800 600 (handleInput K)"
  define B where "B = (\<lambda>off. moveBullet (shotFrom sh ''#ff9900'' (rotation sh + off)))"
  have v: "ship volleyWorld = sh" "asteroids volleyWorld = [rock 1 700 500, rock 3 400 300]"
    "spreadAmmo volleyWorld = 50" "shotsHit volleyWorld = 0" "shotsFired volleyWorld = 0"
    "powerups volleyWorld = []" "bullets volleyWorld = []" "keys volleyWorld = (\<lambda>_. False)"
    by (simp_all add: volleyWorld_def quietWorld_def sh_def)
  have shf: "\<not> destroyed sh" "position sh = \<lparr>px = 400, py = 300\<rparr>"
    "velocity sh = \<lparr>px = 0, py = 0\<rparr>" "invulnerable sh = 120" "\<not> thrusting sh"
    by (simp_all add: sh_def restShip_def)
  have nd: "\<not> destroyed (ship volleyWorld)" using v shf by simp
  note k = handleKeyDown_fire [OF nd, folded K_def, unfolded v]
  have kb: "bullets K = map (\<lambda>off. shotFrom sh ''#ff9900'' (rotation sh + off))
                          [0, - 25 * (pi / 180), 25 * (pi / 180)]"
    using k(7) by (simp add: fireAngles_def)
  have hs: "ship (handleInput K) = sh"
    using k(1,6) shf
    by (simp add: handleInput_def Let_def hypot_def MAX_SPEED_def sh_def restShip_def)
  have ps: "\<not> destroyed (ship P)" "0 < invulnerable (ship P)"
    using hs shf by (simp_all add: P_def updatePhysics_def moveShip_def)
  have pa: "asteroids P = [rock 1 700 500] @ [rock 3 400 300]"
    using k(2) by (simp add: P_def updatePhysics_def moveAsteroid_def rock_def wrap_def)
  have pb: "bullets P = [B 0, B (- 25 * (pi / 180)), B (25 * (pi / 180))]"
    using kb shot_stays_inside [OF shf(2)]
    by (simp add: P_def updatePhysics_bullets B_def)
  have pp: "powerups P = []"
    using k(3) by (simp add: P_def updatePhysics_powerups)
  have pc: "shotsHit P = 0" "shotsFired P = 1"
    using k(4,5) by (simp_all add: P_def)
  have big: "position (rock 3 400 300) = position sh" "7 < radius (rock 3 400 300)"
    "1 < sizeClass (rock 3 400 300)" "sizeClass (rock 3 400 300) = 3"
    using shf by (simp_all add: rock_def)
  have h2: "hitsAsteroid (bullets P ! 2) (rock 3 400 300)"
    unfolding pb B_def using shot_hits_asteroid_at_ship [OF big(1,2)] by simp
  from volley_step [OF pa h2] obtain s2 kids2 where
    s2: "bulletLoop (Suc 2) P = bulletLoop 2 s2" "bullets s2 = splice1 2 (bullets P)"
      "shotsHit s2 = shotsHit P + 1" "shotsFired s2 = shotsFired P" "ship s2 = ship P"
      "powerups s2 = powerups P" "asteroids s2 = [rock 1 700 500] @ kids2"
      "length kids2 = (if sizeClass (rock 3 400 300) > 1 then 2 else 0)"
      "\<forall>c \<in> set kids2. fragmentOf (rock 3 400 300) c"
    by blast
  from fragment_pair [OF s2(8) big(3) s2(9)] obtain c1 c2 where
    c: "kids2 = [c1, c2]" "fragmentOf (rock 3 400 300) c2"
    by blast
  have c2: "position c2 = position sh" "7 < radius c2" "1 < sizeClass c2" "sizeClass c2 = 2"
    using c(2) big by (simp_all add: fragmentOf_def rock_def)
  have a2: "asteroids s2 = [rock 1 700 500, c1] @ [c2]"
    using s2(7) c(1) by simp
  have b2: "bullets s2 = [B 0, B (- 25 * (pi / 180))]"
    using s2(2) pb by (simp add: splice1_def)
  have h1: "hitsAsteroid (bullets s2 ! 1) c2"
    unfolding b2 B_def using shot_hits_asteroid_at_ship [OF c2(1,2)] by simp
  from volley_step [OF a2 h1] obtain s3 kids3 where
    s3: "bulletLoop (Suc 1) s2 = bulletLoop 1 s3" "bullets s3 = splice1 1 (bullets s2)"
      "shotsHit s3 = shotsHit s2 + 1" "shotsFired s3 = shotsFired s2" "ship s3 = ship s2"
      "powerups s3 = powerups s2" "asteroids s3 = [rock 1 700 500, c1] @ kids3"
      "length kids3 = (if sizeClass c2 > 1 then 2 else 0)"
      "\<forall>c \<in> set kids3. fragmentOf c2 c"
    by blast
  from fragment_pair [OF s3(8) c2(3) s3(9)] obtain d1 d2 where
    d: "kids3 = [d1, d2]" "fragmentOf c2 d2"
    by blast
  have d2: "position d2 = position sh" "7 < radius d2" "sizeClass d2 = 1"
    using d(2) c2 by (simp_all add: fragmentOf_def)
  have a3: "asteroids s3 = [rock 1 700 500, c1, d1] @ [d2]"
    using s3(7) d(1) by simp
  have b3: "bullets s3 = [B 0]"
    using s3(2) b2 by (simp add: splice1_def)
  have h0: "hitsAsteroid (bullets s3 ! 0) d2"
    unfolding b3 B_def using shot_hits_asteroid_at_ship [OF d2(1,2)] by simp
  from volley_step [OF a3 h0] obtain s4 kids4 where
    s4: "bulletLoop (Suc 0) s3 = bulletLoop 0 s4" "bullets s4 = splice1 0 (bullets s3)"
      "shotsHit s4 = shotsHit s3 + 1" "shotsFired s4 = shotsFired s3" "ship s4 = ship s3"
      "powerups s4 = powerups s3" "asteroids s4 = [rock 1 700 500, c1, d1] @ kids4"
    by blast
  have "bulletsVsAsteroids P = bulletLoop (Suc 2) P"
    by (simp add: bulletsVsAsteroids_def pb eval_nat_numeral)
  also have "\<dots> = bulletLoop (Suc 1) s2"
    using s2(1) by (simp add: eval_nat_numeral)
  also have "\<dots> = bulletLoop (Suc 0) s3"
    using s3(1) by simp
  also have "\<dots> = s4"
    using s4(1) by simp
  finally have bv: "bulletsVsAsteroids P = s4" .
  have sa: "shipVsAsteroids 800 600 s4 = s4"
    using ps s4(5) s3(5) s2(5) by (simp add: shipVsAsteroids_def)
  have sp: "shipVsPowerups s4 = s4"
    using pp s4(6) s3(6) s2(6) by (simp add: shipVsPowerups_def)
  have "asteroids s4 \<noteq> []" using s4(7) by simp
  then have "checkCollisions 800 600 PLAYING P = Some s4"
    by (simp add: checkCollisions_def bv sa sp waveCheck_def)
  then have "loop 800 600 PLAYING K = Some s4"
    by (simp add: loop_def P_def)
  moreover have "shotsFired s4 = 1" "shotsHit s4 = 3"
    using s4(3,4) s3(3,4) s2(3,4) pc by simp_all
  ultimately show ?thesis unfolding K_def by blast
qed

text \<open>Claim C10. Every fire event with the ship not destroyed increments the
  shots-fired counter by exactly 1, also when spread ammunition is active and three
  bullets are created. Consequently the hits counter can exceed the shots-fired counter:
  from a world where neither counter exceeds the other (both are 0), one fire event
  followed by one frame ends with one shot fired and three hits.\<close>
theorem spread_volley_counts_one_shot:
  "(\<not> destroyed (ship s) \<longrightarrow>
      shotsFired (handleKeyDown ''Space'' PLAYING s) = shotsFired s + 1 \<and>
      (0 < spreadAmmo s \<longrightarrow>
         length (bullets (handleKeyDown ''Space'' PLAYING s)) = length (bullets s) + 3)) \<and>
   shotsHit volleyWorld \<le> shotsFired volleyWorld \<and>
   (\<exists>s'. loop 800 600 PLAYING (handleKeyDown ''Space'' PLAYING volleyWorld) = Some s' \<and>
         shotsFired s' = 1 \<and> shotsHit s' = 3 \<and> shotsFired s' < shotsHit s')"
proof -
  have "shotsFired (handleKeyDown ''Space'' PLAYING s) = shotsFired s + 1 \<and>
        (0 < spreadAmmo s \<longrightarrow>
           length (bullets (handleKeyDown ''Space'' PLAYING s)) = length (bullets s) + 3)"
    if "\<not> destroyed (ship s)"
    using handleKeyDown_fire [OF that] by (simp add: fireAngles_def)
  moreover have "shotsHit volleyWorld \<le> shotsFired volleyWorld"
    by (simp add: volleyWorld_def quietWorld_def)
  moreover from volley_frame obtain s' where
    "loop 800 600 PLAYING (handleKeyDown ''Space'' PLAYING volleyWorld) = Some s'"
    "shotsFired s' = 1" "shotsHit s' = 3"
    by blast
  ultimately show ?thesis by auto
qed

theorem spread_volley_counts_one_shot_witness:
  "\<not> destroyed (ship armedWorld) \<and> 0 < spreadAmmo armedWorld \<and>
   shotsFired armedWorld = 0 \<and>
   shotsFired (handleKeyDown ''Space'' PLAYING armedWorld) = 1 \<and>
   length (bullets (handleKeyDown ''Space'' PLAYING armedWorld)) = 3"
proof -
  have a: "\<not> destroyed (ship armedWorld)" "0 < spreadAmmo armedWorld"
    "shotsFired armedWorld = 0" "bullets armedWorld = []"
    by (simp_all add: armedWorld_def quietWorld_def restShip_def)
  show ?thesis
    using a spread_volley_counts_one_shot [of armedWorld] by simp
qed

subsection \<open>The collision pass of an invulnerable ship\<close>

lemma scanAsteroids_frame [simp]:
  "ship (snd (scanAsteroids b n s)) = ship s"
  "lives (snd (scanAsteroids b n s)) = lives s"
  "bullets (snd (scanAsteroids b n s)) = bullets s"
  "powerups (snd (scanAsteroids b n s)) = powerups s"
  "shotsFired (snd (scanAsteroids b n s)) = shotsFired s"
  "spreadAmmo (snd (scanAsteroids b n s)) = spreadAmmo s"
  by (induction n; simp)+

lemma bulletLoop_frame [simp]:
  "ship (bulletLoop n s) = ship s"
  "lives (bulletLoop n s) = lives s"
  "powerups (bulletLoop n s) = powerups s"
  "shotsFired (bulletLoop n s) = shotsFired s"
  "spreadAmmo (bulletLoop n s) = spreadAmmo s"
  by (induction n arbitrary: s; simp add: case_prod_beta)+

lemma waveCheck_lives:
  "waveCheck width height gameState s = Some s' \<Longrightarrow> lives s' = lives s"
  by (auto simp: waveCheck_def spawnAsteroids_def spawnPowerup_def Let_def
      split: if_splits option.splits prod.splits)

lemma checkCollisions_shielded:
  assumes "0 < invulnerable (ship s)" and "checkCollisions width height gameState s = Some s'"
  shows "lives s \<le> lives s'"
proof -
  define t where "t = bulletsVsAsteroids s"
  have t: "ship t = ship s" "lives t = lives s"
    by (simp_all add: t_def bulletsVsAsteroids_def)
  then have "shipVsAsteroids width height t = t"
    using assms(1) by (simp add: shipVsAsteroids_def)
  then have "waveCheck width height gameState (shipVsPowerups t) = Some s'"
    using assms(2) by (simp add: checkCollisions_def t_def)
  then have "lives s' = lives (shipVsPowerups t)"
    by (rule waveCheck_lives)
  moreover have "lives t \<le> lives (shipVsPowerups t)"
    by (simp add: shipVsPowerups_def powerupLoop_lives_mono)
  ultimately show ?thesis using t by simp
qed

text \<open>Claim C8. When the invulnerability counter of the ship is greater than 0 at the
  collision pass, the ship-asteroid test changes nothing at all, whatever asteroids
  overlap the ship, so it does not decrement the lives; and no part of the collision
  pass does: the lives after the pass are at least the lives before.\<close>

theorem invulnerable_keeps_lives:
  assumes "0 < invulnerable (ship s)"
  shows "shipVsAsteroids width height s = s \<and>
         lives (shipVsAsteroids width height s) = lives s \<and>
         (\<forall>s'. checkCollisions width height gameState s = Some s' \<longrightarrow> lives s \<le> lives s')"
  using assms checkCollisions_shielded [OF assms]
  by (simp add: shipVsAsteroids_def)

theorem invulnerable_keeps_lives_witness:
  "invulnerable (ship shieldedWorld) > 0 \<and>
   dist_between (position (ship shieldedWorld)) (position (rock 3 400 300))
     < radius (rock 3 400 300) + radius (ship shieldedWorld) - 5 \<and>
   asteroids shieldedWorld = [rock 3 400 300] \<and>
   lives (shipVsAsteroids 800 600 shieldedWorld) = 3"
proof -
  have i: "invulnerable (ship shieldedWorld) > 0"
    by (simp add: shieldedWorld_def restShip_def)
  show ?thesis
    using i invulnerable_keeps_lives [OF i, of 800 600 PLAYING]
    by (simp add: shieldedWorld_def quietWorld_def restShip_def rock_def SHIP_SIZE_def
        dist_between_def hypot_less_iff)
qed

end
